theory Spec2Isabelle
  imports Main
begin

section \<open>Python strings\<close>

text \<open>
  A Python \<open>str\<close> is modelled by its UTF-8 byte string (\<^typ>\<open>string\<close>). Substring
  tests, \<open>split\<close> and \<open>join\<close> are exact on that representation, and \<open>strip\<close> removes
  every code point that \<open>str.isspace\<close> accepts. \<open>lower\<close> and \<open>title\<close> map the ASCII
  letters and leave every other byte as it is.
\<close>

fun startswith :: "string \<Rightarrow> string \<Rightarrow> bool" where
  "startswith [] s = True"
| "startswith (p # ps) [] = False"
| "startswith (p # ps) (c # cs) = (p = c \<and> startswith ps cs)"

text \<open>\<open>sub in s\<close>\<close>

fun contains :: "string \<Rightarrow> string \<Rightarrow> bool" where
  "contains sub [] = (sub = [])"
| "contains sub (c # cs) = (startswith sub (c # cs) \<or> contains sub cs)"

definition uppercase :: string where
  "uppercase = ''ABCDEFGHIJKLMNOPQRSTUVWXYZ''"

definition lowercase :: string where
  "lowercase = ''abcdefghijklmnopqrstuvwxyz''"

definition to_lower :: "char \<Rightarrow> char" where
  "to_lower c = (case map_of (zip uppercase lowercase) c of Some d \<Rightarrow> d | None \<Rightarrow> c)"

definition to_upper :: "char \<Rightarrow> char" where
  "to_upper c = (case map_of (zip lowercase uppercase) c of Some d \<Rightarrow> d | None \<Rightarrow> c)"

definition is_cased :: "char \<Rightarrow> bool" where
  "is_cased c = (c \<in> set uppercase \<or> c \<in> set lowercase)"

text \<open>\<open>s.lower()\<close>\<close>

definition lower :: "string \<Rightarrow> string" where
  "lower s = map to_lower s"

text \<open>
  \<open>s.title()\<close>: a letter that follows a letter is lowered, any other letter is raised.
\<close>

fun title_from :: "bool \<Rightarrow> string \<Rightarrow> string" where
  "title_from prev [] = []"
| "title_from prev (c # cs) =
     (if is_cased c then (if prev then to_lower c else to_upper c) # title_from True cs
      else c # title_from False cs)"

definition title :: "string \<Rightarrow> string" where
  "title s = title_from False s"

text \<open>
  The code points Python treats as whitespace, in UTF-8: U+0009..U+000D, U+001C..U+001F,
  U+0020, U+0085, U+00A0, U+1680, U+2000..U+200A, U+2028, U+2029, U+202F, U+205F, U+3000.
\<close>

definition whitespace :: "string list" where
  "whitespace =
     [[CHR 0x09], [CHR 0x0A], [CHR 0x0B], [CHR 0x0C], [CHR 0x0D],
      [CHR 0x1C], [CHR 0x1D], [CHR 0x1E], [CHR 0x1F], [CHR 0x20],
      [CHR 0xC2, CHR 0x85], [CHR 0xC2, CHR 0xA0],
      [CHR 0xE1, CHR 0x9A, CHR 0x80],
      [CHR 0xE2, CHR 0x80, CHR 0x80], [CHR 0xE2, CHR 0x80, CHR 0x81],
      [CHR 0xE2, CHR 0x80, CHR 0x82], [CHR 0xE2, CHR 0x80, CHR 0x83],
      [CHR 0xE2, CHR 0x80, CHR 0x84], [CHR 0xE2, CHR 0x80, CHR 0x85],
      [CHR 0xE2, CHR 0x80, CHR 0x86], [CHR 0xE2, CHR 0x80, CHR 0x87],
      [CHR 0xE2, CHR 0x80, CHR 0x88], [CHR 0xE2, CHR 0x80, CHR 0x89],
      [CHR 0xE2, CHR 0x80, CHR 0x8A],
      [CHR 0xE2, CHR 0x80, CHR 0xA8], [CHR 0xE2, CHR 0x80, CHR 0xA9],
      [CHR 0xE2, CHR 0x80, CHR 0xAF], [CHR 0xE2, CHR 0x81, CHR 0x9F],
      [CHR 0xE3, CHR 0x80, CHR 0x80]]"

text \<open>Drops leading members of \<open>ws\<close> for as long as one is a prefix of the string.\<close>

function lstrip_with :: "string list \<Rightarrow> string \<Rightarrow> string" where
  "lstrip_with ws s =
     (case find (\<lambda>w. w \<noteq> [] \<and> startswith w s) ws of
        None \<Rightarrow> s
      | Some w \<Rightarrow> lstrip_with ws (drop (length w) s))"
  by pat_completeness auto
termination
proof (relation "measure (\<lambda>(ws, s). length s)")
  show "wf (measure (\<lambda>(ws, s). length s))" by simp
next
  fix ws :: "string list" and s w :: string
  assume "find (\<lambda>w. w \<noteq> [] \<and> startswith w s) ws = Some w"
  then have w: "w \<noteq> []" and p: "startswith w s"
    by (auto simp: find_Some_iff)
  from w p have "s \<noteq> []" by (cases w; cases s) auto
  with w show "((ws, drop (length w) s), (ws, s)) \<in> measure (\<lambda>(ws, s). length s)"
    by (cases w) auto
qed

declare lstrip_with.simps [simp del]

definition lstrip :: "string \<Rightarrow> string" where
  "lstrip s = lstrip_with whitespace s"

definition rstrip :: "string \<Rightarrow> string" where
  "rstrip s = rev (lstrip_with (map rev whitespace) (rev s))"

text \<open>\<open>s.strip()\<close>\<close>

definition strip :: "string \<Rightarrow> string" where
  "strip s = rstrip (lstrip s)"

text \<open>
  \<open>s.split(sep)\<close> for a non-empty separator; \<open>acc\<close> holds the current piece, reversed.
  Python raises \<open>ValueError\<close> for an empty separator; the program never passes one.
\<close>

function split_from :: "string \<Rightarrow> string \<Rightarrow> string \<Rightarrow> string list" where
  "split_from sep acc [] = [rev acc]"
| "split_from sep acc (c # cs) =
     (if sep \<noteq> [] \<and> startswith sep (c # cs)
      then rev acc # split_from sep [] (drop (length sep) (c # cs))
      else split_from sep (c # acc) cs)"
  by pat_completeness auto
termination
  by (relation "measure (\<lambda>(sep, acc, s). length s)") (auto simp: neq_Nil_conv)

definition split :: "string \<Rightarrow> string \<Rightarrow> string list" where
  "split s sep = split_from sep [] s"

text \<open>\<open>sep.join(xs)\<close>\<close>

fun join :: "string \<Rightarrow> string list \<Rightarrow> string" where
  "join sep [] = []"
| "join sep [x] = x"
| "join sep (x # y # ys) = x @ sep @ join sep (y # ys)"

text \<open>How an f-string renders a value that is a \<open>str\<close> or \<open>None\<close>.\<close>

definition format_opt :: "string option \<Rightarrow> string" where
  "format_opt v = (case v of None \<Rightarrow> ''None'' | Some t \<Rightarrow> t)"

text \<open>
  A \<open>dict\<close> with string keys, in insertion order: assigning to a key that is present
  replaces its value in place, a new key goes to the end.
\<close>

fun dict_set :: "(string \<times> 'v) list \<Rightarrow> string \<Rightarrow> 'v \<Rightarrow> (string \<times> 'v) list" where
  "dict_set [] k v = [(k, v)]"
| "dict_set ((k', v') # d) k v = (if k' = k then (k, v) # d else (k', v') # dict_set d k v)"

text \<open>\<open>d.update({k1: v1, ...})\<close>\<close>

definition dict_update :: "(string \<times> 'v) list \<Rightarrow> (string \<times> 'v) list \<Rightarrow> (string \<times> 'v) list" where
  "dict_update d kvs = foldl (\<lambda>d (k, v). dict_set d k v) d kvs"

text \<open>\<open>d.get(k, default)\<close>\<close>

definition dict_get :: "(string \<times> 'v) list \<Rightarrow> string \<Rightarrow> 'v \<Rightarrow> 'v" where
  "dict_get d k dflt = (case map_of d k of Some v \<Rightarrow> v | None \<Rightarrow> dflt)"

section \<open>Effects\<close>

text \<open>
  The script talks to the terminal, to external commands, to the file system and to the
  billing provider. Each interaction is an event of a trace. What the outside answers is
  given by a \<open>world\<close>, which may let every answer depend on all that happened before.
  The exceptions of the model are those of the commands, of a prompt at the end of
  standard input, and of the billing SDK. The imports of the script are taken to succeed,
  and so is the writing of the one file; an interrupt from the keyboard is not modelled.
\<close>

datatype exn =
    CalledProcessError int "string list"
  | FileNotFoundError
  | EOFError
  | ProviderError string

text \<open>
  What \<open>subprocess.run\<close> meets: the program ran and exited with a return code, standard
  output and standard error, or there is no such program.
\<close>

datatype outcome = Exited int string string | NotFound

text \<open>
  The two calls of the billing SDK: \<open>stripe.Product.create(name, description)\<close> and
  \<open>stripe.Price.create(product, unit_amount, currency, recurring={'interval': i})\<close>.
\<close>

datatype stripe_call =
    ProductCreate string string
  | PriceCreate string nat string string

text \<open>
  The events: a printed line, a prompt with the line read (if any), a command with its
  standard input and what came of it, a file written, the key given to the SDK, a call
  of the SDK with the id it returned or the text of the exception it raised.
\<close>

datatype event =
    Print string
  | Ask string "string option"
  | Run "string list" "string option" outcome
  | WriteFile string string
  | SetApiKey string
  | Stripe stripe_call "string + string"

text \<open>
  The world: what a command does, what \<open>secrets.token_urlsafe\<close> returns and what the
  billing provider answers, each given the trace so far.
\<close>

record world =
  subprocess :: "event list \<Rightarrow> string list \<Rightarrow> string option \<Rightarrow> outcome"
  token_urlsafe :: "event list \<Rightarrow> nat \<Rightarrow> string"
  stripe_api :: "event list \<Rightarrow> stripe_call \<Rightarrow> string + string"

text \<open>The state of a run: the lines still to be read, and the trace.\<close>

record state =
  stdin :: "string list"
  trace :: "event list"

text \<open>
  A program returns a value or raises, and leaves a state either way, so that what
  happened before an exception stays on the trace.
\<close>

type_synonym 'a prog = "state \<Rightarrow> (exn + 'a) \<times> state"

definition ret :: "'a \<Rightarrow> 'a prog" where
  "ret x s = (Inr x, s)"

definition bind :: "'a prog \<Rightarrow> ('a \<Rightarrow> 'b prog) \<Rightarrow> 'b prog" where
  "bind m f s = (case m s of (Inl e, s') \<Rightarrow> (Inl e, s') | (Inr x, s') \<Rightarrow> f x s')"

definition andthen :: "'a prog \<Rightarrow> 'b prog \<Rightarrow> 'b prog" where
  "andthen m n = bind m (\<lambda>_. n)"

definition emit :: "event \<Rightarrow> unit prog" where
  "emit e s = (Inr (), s\<lparr>trace := trace s @ [e]\<rparr>)"

text \<open>\<open>print(t)\<close>\<close>

definition print :: "string \<Rightarrow> unit prog" where
  "print t = emit (Print t)"

text \<open>\<open>input(prompt)\<close>: the next line of standard input, \<open>EOFError\<close> when there is none.\<close>

definition input :: "string \<Rightarrow> string prog" where
  "input prompt s =
     (case stdin s of
        [] \<Rightarrow> (Inl EOFError, s\<lparr>trace := trace s @ [Ask prompt None]\<rparr>)
      | l # ls \<Rightarrow> (Inr l, s\<lparr>stdin := ls, trace := trace s @ [Ask prompt (Some l)]\<rparr>))"

text \<open>
  \<open>subprocess.run(argv, input=inp, check=check)\<close>; the value is the completed process
  (return code, standard output, standard error).
\<close>

definition run :: "world \<Rightarrow> bool \<Rightarrow> string list \<Rightarrow> string option \<Rightarrow> (int \<times> string \<times> string) prog" where
  "run W check argv inp s =
     (let out = subprocess W (trace s) argv inp;
          s' = s\<lparr>trace := trace s @ [Run argv inp out]\<rparr>
      in case out of
           NotFound \<Rightarrow> (Inl FileNotFoundError, s')
         | Exited rc so se \<Rightarrow>
             if check \<and> rc \<noteq> 0 then (Inl (CalledProcessError rc argv), s')
             else (Inr (rc, so, se), s'))"

text \<open>\<open>subprocess.run(argv, check=True)\<close> as a statement\<close>

definition run_checked :: "world \<Rightarrow> string list \<Rightarrow> string option \<Rightarrow> unit prog" where
  "run_checked W argv inp = andthen (run W True argv inp) (ret ())"

text \<open>\<open>try: m  except (subprocess.CalledProcessError, FileNotFoundError): h\<close>\<close>

definition except_cli :: "'a prog \<Rightarrow> 'a prog \<Rightarrow> 'a prog" where
  "except_cli m h s =
     (case m s of
        (Inl (CalledProcessError rc argv), s') \<Rightarrow> h s'
      | (Inl FileNotFoundError, s') \<Rightarrow> h s'
      | r \<Rightarrow> r)"

text \<open>
  \<open>str(e)\<close>. Inside the one guarded block of the script only the billing SDK raises, so
  only the first case is ever used; the other texts are abridged.
\<close>

definition exn_text :: "exn \<Rightarrow> string" where
  "exn_text e =
     (case e of
        ProviderError msg \<Rightarrow> msg
      | CalledProcessError rc argv \<Rightarrow> ''Command returned non-zero exit status''
      | FileNotFoundError \<Rightarrow> ''No such file or directory''
      | EOFError \<Rightarrow> ''EOF when reading a line'')"

text \<open>\<open>try: m  except Exception as e: h e\<close>\<close>

definition except_any :: "'a prog \<Rightarrow> (exn \<Rightarrow> 'a prog) \<Rightarrow> 'a prog" where
  "except_any m h s = (case m s of (Inl e, s') \<Rightarrow> h e s' | r \<Rightarrow> r)"

text \<open>A call of the billing SDK: the id of the created object, or an exception.\<close>

definition stripe_create :: "world \<Rightarrow> stripe_call \<Rightarrow> string prog" where
  "stripe_create W c s =
     (let reply = stripe_api W (trace s) c;
          s' = s\<lparr>trace := trace s @ [Stripe c reply]\<rparr>
      in case reply of
           Inl msg \<Rightarrow> (Inl (ProviderError msg), s')
         | Inr ident \<Rightarrow> (Inr ident, s'))"


section \<open>JSON\<close>

text \<open>The Python values that the generated configuration is built from.\<close>

datatype json =
    JString string
  | JBool bool
  | JList "json list"
  | JDict "(string \<times> json) list"

definition hex_digit :: "nat \<Rightarrow> char" where
  "hex_digit n = ''0123456789abcdef'' ! (n mod 16)"

text \<open>
  How \<open>json\<close> writes one character of a string: quote, backslash and control characters
  are escaped. (A character outside ASCII would be escaped as well; the configuration
  has none, and such bytes are copied here.)
\<close>

definition json_char :: "char \<Rightarrow> string" where
  "json_char c =
     (if c = CHR 0x22 then [CHR 0x5C, CHR 0x22]
      else if c = CHR 0x5C then [CHR 0x5C, CHR 0x5C]
      else if c = CHR 0x0A then [CHR 0x5C, CHR ''n'']
      else if c = CHR 0x0D then [CHR 0x5C, CHR ''r'']
      else if c = CHR 0x09 then [CHR 0x5C, CHR ''t'']
      else if c = CHR 0x08 then [CHR 0x5C, CHR ''b'']
      else if c = CHR 0x0C then [CHR 0x5C, CHR ''f'']
      else if (of_char c :: nat) < 32 \<or> c = CHR 0x7F
        then [CHR 0x5C, CHR ''u'', CHR ''0'', CHR ''0'',
              hex_digit (of_char c div 16), hex_digit (of_char c)]
      else [c])"

definition json_string :: "string \<Rightarrow> string" where
  "json_string t = [CHR 0x22] @ concat (map json_char t) @ [CHR 0x22]"

text \<open>A line break followed by the indentation of nesting level \<open>n\<close> (\<open>indent=2\<close>).\<close>

definition newline_indent :: "nat \<Rightarrow> string" where
  "newline_indent n = CHR 0x0A # replicate (2 * n) CHR '' ''"

text \<open>
  \<open>json.dumps(v, indent=2)\<close>: each item of a non-empty list or dict on a line of its own,
  items separated by a comma, a key and its value by a colon and a space.
\<close>

fun dumps_at :: "nat \<Rightarrow> json \<Rightarrow> string"
  and dumps_items :: "nat \<Rightarrow> json list \<Rightarrow> string list"
  and dumps_members :: "nat \<Rightarrow> (string \<times> json) list \<Rightarrow> string list" where
  "dumps_at n (JString t) = json_string t"
| "dumps_at n (JBool b) = (if b then ''true'' else ''false'')"
| "dumps_at n (JList []) = ''[]''"
| "dumps_at n (JList (v # vs)) =
     ''['' @ newline_indent (Suc n)
       @ join ('','' @ newline_indent (Suc n)) (dumps_items (Suc n) (v # vs))
       @ newline_indent n @ '']''"
| "dumps_at n (JDict []) = ''{}''"
| "dumps_at n (JDict (kv # kvs)) =
     ''{'' @ newline_indent (Suc n)
       @ join ('','' @ newline_indent (Suc n)) (dumps_members (Suc n) (kv # kvs))
       @ newline_indent n @ ''}''"
| "dumps_items n [] = []"
| "dumps_items n (v # vs) = dumps_at n v # dumps_items n vs"
| "dumps_members n [] = []"
| "dumps_members n ((k, v) # kvs) = (json_string k @ '': '' @ dumps_at n v) # dumps_members n kvs"

definition dumps :: "json \<Rightarrow> string" where
  "dumps v = dumps_at 0 v"

section \<open>The deployer\<close>

text \<open>
  The definitions follow \<open>deploy.py\<close>; each names the method or the lines it stands for.
  The pictographs that open many printed lines are written as their UTF-8 bytes.
\<close>

abbreviation (input) rocket :: string where
  "rocket \<equiv> [CHR 0xF0, CHR 0x9F, CHR 0x9A, CHR 0x80]"

abbreviation (input) cross :: string where
  "cross \<equiv> [CHR 0xE2, CHR 0x9D, CHR 0x8C]"

abbreviation (input) memo :: string where
  "memo \<equiv> [CHR 0xF0, CHR 0x9F, CHR 0x93, CHR 0x9D]"

abbreviation (input) check_mark :: string where
  "check_mark \<equiv> [CHR 0xE2, CHR 0x9C, CHR 0x85]"

abbreviation (input) globe :: string where
  "globe \<equiv> [CHR 0xF0, CHR 0x9F, CHR 0x8C, CHR 0x90]"

abbreviation (input) money_bag :: string where
  "money_bag \<equiv> [CHR 0xF0, CHR 0x9F, CHR 0x92, CHR 0xB0]"

abbreviation (input) bar_chart :: string where
  "bar_chart \<equiv> [CHR 0xF0, CHR 0x9F, CHR 0x93, CHR 0x8A]"

abbreviation (input) credit_card :: string where
  "credit_card \<equiv> [CHR 0xF0, CHR 0x9F, CHR 0x92, CHR 0xB3]"

abbreviation (input) warning_sign :: string where
  "warning_sign \<equiv> [CHR 0xE2, CHR 0x9A, CHR 0xA0, CHR 0xEF, CHR 0xB8, CHR 0x8F]"

abbreviation (input) party :: string where
  "party \<equiv> [CHR 0xF0, CHR 0x9F, CHR 0x8E, CHR 0x89]"

abbreviation (input) padlock :: string where
  "padlock \<equiv> [CHR 0xF0, CHR 0x9F, CHR 0x94, CHR 0x90]"

abbreviation (input) clipboard :: string where
  "clipboard \<equiv> [CHR 0xF0, CHR 0x9F, CHR 0x93, CHR 0x8B]"

abbreviation (input) bulb :: string where
  "bulb \<equiv> [CHR 0xF0, CHR 0x9F, CHR 0x92, CHR 0xA1]"

abbreviation (input) bullet :: string where
  "bullet \<equiv> [CHR 0xE2, CHR 0x80, CHR 0xA2]"

abbreviation (input) nl :: char where
  "nl \<equiv> CHR 0x0A"

subsection \<open>Secret collection\<close>

text \<open>\<open>generate_secret_key\<close> (lines 199 to 202): \<open>secrets.token_urlsafe(32)\<close>\<close>

definition generate_secret_key :: "world \<Rightarrow> string prog" where
  "generate_secret_key W s = (Inr (token_urlsafe W (trace s) 32), s)"

text \<open>\<open>get_production_env_vars\<close> (lines 168 to 197)\<close>

definition get_production_env_vars :: "world \<Rightarrow> (string \<times> string) list prog" where
  "get_production_env_vars W =
     andthen (print (nl # money_bag @ '' Setting up monetization (Stripe)...''))
    (andthen (print ''Get your Stripe keys from: https://dashboard.stripe.com/apikeys'')
    (bind (input ''Stripe Publishable Key (pk_live_...): '') (\<lambda>l1.
     bind (input ''Stripe Secret Key (sk_live_...): '') (\<lambda>l2.
     bind (input ''Stripe Webhook Secret (whsec_...): '') (\<lambda>l3.
     bind (generate_secret_key W) (\<lambda>secret.
     andthen (print (nl # bar_chart @ '' Optional: Market Data API Keys (press Enter to skip)''))
    (bind (input ''Alpha Vantage API Key: '') (\<lambda>l4.
     bind (input ''IEX Cloud API Key: '') (\<lambda>l5.
       let stripe_publishable = strip l1;
           stripe_secret = strip l2;
           stripe_webhook = strip l3;
           env_vars = dict_update []
             [(''FLASK_ENV'', ''production''),
              (''SECRET_KEY'', secret),
              (''STRIPE_PUBLISHABLE_KEY'', stripe_publishable),
              (''STRIPE_SECRET_KEY'', stripe_secret),
              (''STRIPE_WEBHOOK_SECRET'', stripe_webhook)];
           alpha_vantage = strip l4;
           iex_key = strip l5;
           env_vars = (if alpha_vantage \<noteq> []
                       then dict_set env_vars ''ALPHA_VANTAGE_API_KEY'' alpha_vantage
                       else env_vars);
           env_vars = (if iex_key \<noteq> []
                       then dict_set env_vars ''IEX_API_KEY'' iex_key
                       else env_vars)
       in ret env_vars)))))))))"

text \<open>
  The test of the three loops that push the variables (lines 43, 92 and 130):
  \<open>value and value != 'your-key-here'\<close>.
\<close>

definition pushable :: "string \<Rightarrow> bool" where
  "pushable v = (v \<noteq> [] \<and> v \<noteq> ''your-key-here'')"

text \<open>
  \<open>for key, value in env_vars.items(): if ...: subprocess.run(cmd, check=True)\<close>,
  where \<open>cmd key value\<close> is the command line and the standard input it is given.
\<close>

fun push_env :: "world \<Rightarrow> (string \<Rightarrow> string \<Rightarrow> string list \<times> string option)
    \<Rightarrow> (string \<times> string) list \<Rightarrow> unit prog" where
  "push_env W cmd [] = ret ()"
| "push_env W cmd ((k, v) # kvs) =
     andthen (if pushable v then run_checked W (fst (cmd k v)) (snd (cmd k v)) else ret ())
             (push_env W cmd kvs)"

definition vercel_env_add :: "string \<Rightarrow> string \<Rightarrow> string list \<times> string option" where
  "vercel_env_add k v = ([''vercel'', ''env'', ''add'', k], Some v)"

definition heroku_config_set :: "string \<Rightarrow> string \<Rightarrow> string list \<times> string option" where
  "heroku_config_set k v = ([''heroku'', ''config:set'', k @ ''='' @ v], None)"

definition railway_variables_set :: "string \<Rightarrow> string \<Rightarrow> string list \<times> string option" where
  "railway_variables_set k v = ([''railway'', ''variables'', ''set'', k @ ''='' @ v], None)"

subsection \<open>Billing product setup\<close>

text \<open>The body of the \<open>try\<close> block of \<open>setup_stripe_products\<close> (lines 217 to 264).\<close>

definition create_products :: "world \<Rightarrow> unit prog" where
  "create_products W =
     bind (stripe_create W (ProductCreate ''OptionScope Pro''
             ''Advanced options trading analytics for serious traders'')) (\<lambda>pro_product.
     bind (stripe_create W (PriceCreate pro_product 2999 ''usd'' ''month'')) (\<lambda>pro_monthly.
     bind (stripe_create W (PriceCreate pro_product 29999 ''usd'' ''year'')) (\<lambda>pro_yearly.
     bind (stripe_create W (ProductCreate ''OptionScope Enterprise''
             ''Full-featured solution for institutions'')) (\<lambda>enterprise_product.
     bind (stripe_create W (PriceCreate enterprise_product 9999 ''usd'' ''month'')) (\<lambda>enterprise_monthly.
     bind (stripe_create W (PriceCreate enterprise_product 99999 ''usd'' ''year'')) (\<lambda>enterprise_yearly.
     andthen (print (check_mark @ '' Stripe products created successfully!''))
    (andthen (print (memo @ '' Add these to your environment variables:''))
    (andthen (print (''STRIPE_PRO_MONTHLY='' @ pro_monthly))
    (andthen (print (''STRIPE_PRO_YEARLY='' @ pro_yearly))
    (andthen (print (''STRIPE_ENTERPRISE_MONTHLY='' @ enterprise_monthly))
             (print (''STRIPE_ENTERPRISE_YEARLY='' @ enterprise_yearly))))))))))))"

text \<open>\<open>setup_stripe_products\<close> (lines 204 to 267)\<close>

definition setup_stripe_products :: "world \<Rightarrow> unit prog" where
  "setup_stripe_products W =
     andthen (print (nl # credit_card @ '' Setting up Stripe products...''))
    (bind (input ''Enter your Stripe Secret Key: '') (\<lambda>l.
       let stripe_secret = strip l in
       if stripe_secret = []
       then print (warning_sign
                   @ ''  Skipping Stripe setup. You can do this later in Stripe Dashboard.'')
       else andthen (emit (SetApiKey stripe_secret))
              (except_any (create_products W)
                 (\<lambda>e. print (cross @ '' Error setting up Stripe: '' @ exn_text e)))))"

subsection \<open>Vercel\<close>

text \<open>The scan of the output of \<open>vercel --prod\<close> for the address (lines 53 to 57).\<close>

fun find_vercel_url :: "string list \<Rightarrow> string option" where
  "find_vercel_url [] = None"
| "find_vercel_url (line # lines) =
     (if contains ''https://'' line \<and> contains ''vercel.app'' line then Some (strip line)
      else find_vercel_url lines)"

text \<open>
  \<open>deploy_vercel\<close> after its first line, up to and including the loop that pushes the
  variables (lines 28 to 44).
\<close>

definition vercel_prepare :: "world \<Rightarrow> unit prog" where
  "vercel_prepare W =
     andthen (except_cli (run_checked W [''vercel'', ''--version''] None)
                (andthen (print (cross @ '' Vercel CLI not found. Installing...''))
                         (run_checked W [''npm'', ''install'', ''-g'', ''vercel''] None)))
    (andthen (run_checked W [''cp'', ''requirements-vercel.txt'', ''requirements.txt''] None)
    (bind (get_production_env_vars W) (\<lambda>env_vars.
     andthen (print (memo @ '' Setting up environment variables...''))
             (push_env W vercel_env_add env_vars))))"

text \<open>\<open>deploy_vercel\<close> from the deploy command on (lines 47 to 66).\<close>

definition vercel_release :: "world \<Rightarrow> string option prog" where
  "vercel_release W =
     andthen (print (rocket @ '' Deploying to Vercel...''))
    (bind (run W False [''vercel'', ''--prod''] None) (\<lambda>(returncode, stdout, stderr).
       if returncode = 0
       then let url = find_vercel_url (split stdout [nl]) in
            andthen (print (check_mark @ '' Deployment successful!''))
           (andthen (print (globe @ '' Your OptionScope is live at: '' @ format_opt url))
           (andthen (print (money_bag @ '' Set up Stripe webhooks at: '' @ format_opt url
                            @ ''/auth/webhook/stripe''))
                    (ret url)))
       else andthen (print (cross @ '' Deployment failed: '' @ stderr)) (ret None)))"

text \<open>\<open>deploy_vercel\<close> (lines 24 to 66)\<close>

definition deploy_vercel :: "world \<Rightarrow> string option prog" where
  "deploy_vercel W =
     andthen (print (rocket @ '' Deploying OptionScope to Vercel...''))
    (andthen (vercel_prepare W) (vercel_release W))"

subsection \<open>Heroku\<close>

text \<open>The scan of the output of \<open>heroku info\<close> for the address (lines 103 to 106).\<close>

fun find_web_url :: "string list \<Rightarrow> string option" where
  "find_web_url [] = None"
| "find_web_url (line # lines) =
     (if contains ''Web URL:'' line then Some (strip (split line ''Web URL:'' ! 1))
      else find_web_url lines)"

text \<open>\<open>deploy_heroku\<close>: creating the app, the database addon, the variables (lines 79 to 93).\<close>

definition heroku_prepare :: "world \<Rightarrow> unit prog" where
  "heroku_prepare W =
     bind (input ''Enter Heroku app name (or press Enter for auto-generated): '') (\<lambda>l.
       let app_name = strip l in
       andthen (if app_name \<noteq> [] then run_checked W [''heroku'', ''create'', app_name] None
                else run_checked W [''heroku'', ''create''] None)
      (andthen (run_checked W [''heroku'', ''addons:create'', ''heroku-postgresql:hobby-dev''] None)
      (bind (get_production_env_vars W) (\<lambda>env_vars.
         push_env W heroku_config_set env_vars))))"

text \<open>\<open>deploy_heroku\<close>: the push that deploys, and reading the address back (lines 95 to 110).\<close>

definition heroku_release :: "world \<Rightarrow> string option prog" where
  "heroku_release W =
     andthen (run_checked W [''git'', ''add'', ''.''] None)
    (andthen (run_checked W [''git'', ''commit'', ''-m'', ''Deploy OptionScope''] None)
    (andthen (run_checked W [''git'', ''push'', ''heroku'', ''main''] None)
    (bind (run W False [''heroku'', ''info''] None) (\<lambda>(returncode, stdout, stderr).
       let url = find_web_url (split stdout [nl]) in
       andthen (print (check_mark @ '' Deployment successful!''))
      (andthen (print (globe @ '' Your OptionScope is live at: '' @ format_opt url))
               (ret url))))))"

text \<open>
  \<open>deploy_heroku\<close> (lines 68 to 110). The handler of the version probe leaves the routine
  with \<open>None\<close>; \<open>found\<close> tells whether the probe went through.
\<close>

definition deploy_heroku :: "world \<Rightarrow> string option prog" where
  "deploy_heroku W =
     andthen (print (rocket @ '' Deploying OptionScope to Heroku...''))
    (bind (except_cli (andthen (run_checked W [''heroku'', ''--version''] None) (ret True))
             (andthen (print (cross @ '' Heroku CLI not found. Please install it first.''))
                      (ret False))) (\<lambda>found.
       if \<not> found then ret None
       else andthen (heroku_prepare W) (heroku_release W)))"

subsection \<open>Railway\<close>

text \<open>
  \<open>deploy_railway\<close> after its first line, up to and including the loop that sets the
  variables (lines 116 to 131).
\<close>

definition railway_prepare :: "world \<Rightarrow> unit prog" where
  "railway_prepare W =
     andthen (except_cli (run_checked W [''railway'', ''--version''] None)
                (andthen (print (cross @ '' Railway CLI not found. Installing...''))
                         (run_checked W [''npm'', ''install'', ''-g'', ''@railway/cli''] None)))
    (andthen (run_checked W [''railway'', ''login''] None)
    (andthen (run_checked W [''railway'', ''init''] None)
    (bind (get_production_env_vars W) (\<lambda>env_vars.
       push_env W railway_variables_set env_vars))))"

text \<open>\<open>deploy_railway\<close> from the deploy command on (lines 133 to 138).\<close>

definition railway_release :: "world \<Rightarrow> string option prog" where
  "railway_release W =
     andthen (run_checked W [''railway'', ''up''] None)
    (andthen (print (check_mark @ '' Deployment successful!''))
    (andthen (print (globe @ '' Check Railway dashboard for your app URL''))
             (ret (Some ''Check Railway dashboard''))))"

text \<open>\<open>deploy_railway\<close> (lines 112 to 138)\<close>

definition deploy_railway :: "world \<Rightarrow> string option prog" where
  "deploy_railway W =
     andthen (print (rocket @ '' Deploying OptionScope to Railway...''))
    (andthen (railway_prepare W) (railway_release W))"

subsection \<open>Render\<close>

text \<open>\<open>render_config\<close> (lines 145 to 159)\<close>

definition render_config :: json where
  "render_config =
     JDict [(''services'', JList
       [JDict [(''type'', JString ''web''),
               (''name'', JString ''optionscope''),
               (''env'', JString ''python''),
               (''buildCommand'', JString ''pip install -r requirements.txt''),
               (''startCommand'', JString ''gunicorn app:server''),
               (''envVars'', JList
                  [JDict [(''key'', JString ''FLASK_ENV''), (''value'', JString ''production'')],
                   JDict [(''key'', JString ''SECRET_KEY''), (''generateValue'', JBool True)]])]])]"

text \<open>
  \<open>deploy_render\<close> (lines 140 to 166); it takes the world like the other routines and
  asks it nothing.
\<close>

definition deploy_render :: "world \<Rightarrow> string option prog" where
  "deploy_render W =
     andthen (print (rocket @ '' Setting up Render deployment...''))
    (andthen (emit (WriteFile ''render.yaml'' (dumps render_config)))
    (andthen (print (check_mark @ '' render.yaml created!''))
    (andthen (print (globe @ '' Connect your GitHub repo to Render dashboard to deploy''))
             (ret (Some ''Manual setup required'')))))"

subsection \<open>Dispatch\<close>

text \<open>\<open>self.platforms\<close> (lines 17 to 22)\<close>

definition platforms :: "(string \<times> (world \<Rightarrow> string option prog)) list" where
  "platforms =
     [(''vercel'', deploy_vercel),
      (''heroku'', deploy_heroku),
      (''railway'', deploy_railway),
      (''render'', deploy_render)]"

text \<open>The truth value of a \<open>str\<close> or \<open>None\<close>.\<close>

definition truthy :: "string option \<Rightarrow> bool" where
  "truthy v = (case v of None \<Rightarrow> False | Some t \<Rightarrow> t \<noteq> [])"

text \<open>
  The closing report of \<open>deploy\<close> (lines 288 to 307), printed when the routine's value is
  true.
\<close>

definition report :: "string \<Rightarrow> unit prog" where
  "report url =
     andthen (print (nl # party @ '' Deployment Complete!''))
    (andthen (print (replicate 50 CHR ''=''))
    (andthen (print (globe @ '' Live URL: '' @ url))
    (andthen (print (money_bag @ '' Pricing Page: '' @ url @ ''/pricing''))
    (andthen (print (bar_chart @ '' Dashboard: '' @ url @ ''/dashboard''))
    (andthen (print (padlock @ '' Admin: '' @ url @ ''/auth/profile''))
    (andthen (print (nl # clipboard @ '' Next Steps:''))
    (andthen (print ''1. Set up your Stripe webhook endpoint'')
    (andthen (print ''2. Configure your domain (optional)'')
    (andthen (print ''3. Set up monitoring and analytics'')
    (andthen (print ''4. Test the payment flow'')
    (andthen (print ''5. Launch your marketing campaign!'')
    (andthen (print (nl # bulb @ '' Monetization Tips:''))
    (andthen (print (bullet @ '' Start with freemium model to build user base''))
    (andthen (print (bullet @ '' Offer 14-day free trial for paid plans''))
    (andthen (print (bullet @ '' Add usage-based pricing for API calls''))
    (andthen (print (bullet @ '' Create enterprise features for institutions''))
             (print (bullet @ '' Consider affiliate/referral program''))))))))))))))))))"

text \<open>
  \<open>deploy\<close>, after the platform was found in the table (lines 279 to 307): the offer to
  set up the billing products, the routine, the report.
\<close>

definition deploy_with :: "world \<Rightarrow> (world \<Rightarrow> string option prog) \<Rightarrow> unit prog" where
  "deploy_with W routine =
     bind (input ''Set up Stripe products? (y/N): '') (\<lambda>l.
       let setup_stripe = lower (strip l) in
       andthen (if setup_stripe = ''y'' then setup_stripe_products W else ret ())
      (bind (routine W) (\<lambda>url.
         if truthy url then report (format_opt url) else ret ())))"

text \<open>\<open>deploy\<close> (lines 269 to 307)\<close>

definition deploy :: "world \<Rightarrow> string \<Rightarrow> unit prog" where
  "deploy W platform =
     andthen (print (rocket @ '' OptionScope Deployment to '' @ title platform))
    (andthen (print (replicate 50 CHR ''=''))
       (case map_of platforms platform of
          None \<Rightarrow>
            andthen (print (cross @ '' Unsupported platform: '' @ platform))
                    (print (''Supported platforms: '' @ join '', '' (map fst platforms)))
        | Some routine \<Rightarrow> deploy_with W routine))"

text \<open>
  The choice of the platform in \<open>main\<close>, from \<open>sys.argv\<close> or from the menu (lines 310 to
  322).
\<close>

definition choose_platform :: "string list \<Rightarrow> string prog" where
  "choose_platform argv =
     (if length argv > 1 then ret (lower (argv ! 1))
      else andthen (print (rocket @ '' OptionScope Deployment''))
          (andthen (print ''Choose deployment platform:'')
          (andthen (print ''1. Vercel (Recommended - Free tier)'')
          (andthen (print ''2. Heroku (Full-stack)'')
          (andthen (print ''3. Railway (Modern)'')
          (andthen (print ''4. Render (Simple)'')
          (bind (input ''Enter choice (1-4): '') (\<lambda>l.
             let choice = strip l;
                 platforms = [(''1'', ''vercel''), (''2'', ''heroku''),
                              (''3'', ''railway''), (''4'', ''render'')]
             in ret (dict_get platforms choice ''vercel''))))))))) "

text \<open>\<open>main\<close> (lines 309 to 325)\<close>

definition main :: "world \<Rightarrow> string list \<Rightarrow> unit prog" where
  "main W argv = bind (choose_platform argv) (\<lambda>platform. deploy W platform)"

section \<open>Reading the trace\<close>

text \<open>The events a run added to the trace.\<close>

definition new_events :: "state \<Rightarrow> state \<Rightarrow> event list" where
  "new_events s s' = drop (length (trace s)) (trace s')"

text \<open>A line that announces an address as live, as the Vercel and Heroku routines print it.\<close>

definition is_live :: "event \<Rightarrow> bool" where
  "is_live e =
     (case e of
        Print t \<Rightarrow> startswith (globe @ '' Your OptionScope is live at: '') t
      | _ \<Rightarrow> False)"

text \<open>The command \<open>argv\<close> ran and exited with a return code other than zero.\<close>

definition failed_run :: "string list \<Rightarrow> event \<Rightarrow> bool" where
  "failed_run argv e =
     (case e of
        Run a i (Exited rc so se) \<Rightarrow> a = argv \<and> rc \<noteq> 0
      | _ \<Rightarrow> False)"


text \<open>The first line of each deploy routine, by platform name.\<close>

definition banners :: "(string \<times> string) list" where
  "banners =
     [(''vercel'', rocket @ '' Deploying OptionScope to Vercel...''),
      (''heroku'', rocket @ '' Deploying OptionScope to Heroku...''),
      (''railway'', rocket @ '' Deploying OptionScope to Railway...''),
      (''render'', rocket @ '' Setting up Render deployment...'')]"

text \<open>The platform whose routine announces itself with this event, if it is such a line.\<close>

definition announces :: "event \<Rightarrow> string option" where
  "announces e =
     (case e of
        Print t \<Rightarrow> map_option fst (find (\<lambda>(name, line). line = t) banners)
      | _ \<Rightarrow> None)"

text \<open>
  What the program does outside the deploy routines: it prints lines other than the
  first line of a routine, asks, and calls the billing SDK; it runs no command and writes
  no file.
\<close>

definition frame_event :: "event \<Rightarrow> bool" where
  "frame_event e =
     (case e of
        Print t \<Rightarrow> announces (Print t) = None
      | Ask p x \<Rightarrow> True
      | SetApiKey k \<Rightarrow> True
      | Stripe c r \<Rightarrow> True
      | Run a i out \<Rightarrow> False
      | WriteFile f t \<Rightarrow> False)"

text \<open>The routines that announced themselves, in order.\<close>

definition routines_started :: "event list \<Rightarrow> string list" where
  "routines_started evs = List.map_filter announces evs"

text \<open>The calls of the billing SDK with their replies, in order.\<close>

fun stripe_log :: "event list \<Rightarrow> (stripe_call \<times> (string + string)) list" where
  "stripe_log [] = []"
| "stripe_log (Stripe c r # evs) = (c, r) # stripe_log evs"
| "stripe_log (e # evs) = stripe_log evs"

text \<open>
  The six creations of \<open>setup_stripe_products\<close>, for the ids \<open>pro\<close> and \<open>ent\<close> that the
  provider gave the two products.
\<close>

definition attempts :: "string \<Rightarrow> string \<Rightarrow> stripe_call list" where
  "attempts pro ent =
     [ProductCreate ''OptionScope Pro'' ''Advanced options trading analytics for serious traders'',
      PriceCreate pro 2999 ''usd'' ''month'',
      PriceCreate pro 29999 ''usd'' ''year'',
      ProductCreate ''OptionScope Enterprise'' ''Full-featured solution for institutions'',
      PriceCreate ent 9999 ''usd'' ''month'',
      PriceCreate ent 99999 ''usd'' ''year'']"

text \<open>A logged call that returned an id rather than raising.\<close>

definition succeeded :: "stripe_call \<times> (string + string) \<Rightarrow> bool" where
  "succeeded cr = (case snd cr of Inl msg \<Rightarrow> False | Inr ident \<Rightarrow> True)"

text \<open>
  Every event a program adds to the trace satisfies \<open>P\<close>; in particular the program only
  ever extends the trace.
\<close>

definition emits :: "(event \<Rightarrow> bool) \<Rightarrow> 'a prog \<Rightarrow> bool" where
  "emits P m = (\<forall>s. \<exists>evs. trace (snd (m s)) = trace s @ evs \<and> list_all P evs)"

subsection \<open>Well-formed JSON\<close>

text \<open>
  A reader for JSON texts made of strings, \<open>true\<close>, \<open>false\<close>, arrays and objects, with a
  bound on the number of nested calls. It accepts no number, no \<open>null\<close> and no
  unicode escape, so every text it accepts is well-formed JSON.
\<close>

fun skip_ws :: "string \<Rightarrow> string" where
  "skip_ws [] = []"
| "skip_ws (c # cs) =
     (if c = CHR '' '' \<or> c = CHR 0x09 \<or> c = CHR 0x0A \<or> c = CHR 0x0D then skip_ws cs
      else c # cs)"

definition unescape :: "char \<Rightarrow> char option" where
  "unescape d =
     map_of [(CHR 0x22, CHR 0x22), (CHR 0x5C, CHR 0x5C), (CHR ''/'', CHR ''/''),
             (CHR ''b'', CHR 0x08), (CHR ''f'', CHR 0x0C), (CHR ''n'', CHR 0x0A),
             (CHR ''r'', CHR 0x0D), (CHR ''t'', CHR 0x09)] d"

text \<open>The rest of a string after its opening quote; \<open>acc\<close> is what was read, reversed.\<close>

fun read_chars :: "string \<Rightarrow> string \<Rightarrow> (string \<times> string) option" where
  "read_chars acc [] = None"
| "read_chars acc [c] = (if c = CHR 0x22 then Some (rev acc, []) else None)"
| "read_chars acc (c # d # cs) =
     (if c = CHR 0x22 then Some (rev acc, d # cs)
      else if c = CHR 0x5C
        then (case unescape d of None \<Rightarrow> None | Some x \<Rightarrow> read_chars (x # acc) cs)
      else if (of_char c :: nat) < 32 then None
      else read_chars (c # acc) (d # cs))"

fun read_value :: "nat \<Rightarrow> string \<Rightarrow> (json \<times> string) option"
  and read_items :: "nat \<Rightarrow> json list \<Rightarrow> string \<Rightarrow> (json list \<times> string) option"
  and read_members :: "nat \<Rightarrow> (string \<times> json) list \<Rightarrow> string
      \<Rightarrow> ((string \<times> json) list \<times> string) option" where
  "read_value 0 t = None"
| "read_value (Suc n) t =
     (case skip_ws t of
        [] \<Rightarrow> None
      | c # r \<Rightarrow>
          if c = CHR 0x22
            then (case read_chars [] r of None \<Rightarrow> None | Some (x, r') \<Rightarrow> Some (JString x, r'))
          else if c = CHR ''t''
            then (if startswith ''rue'' r then Some (JBool True, drop 3 r) else None)
          else if c = CHR ''f''
            then (if startswith ''alse'' r then Some (JBool False, drop 4 r) else None)
          else if c = CHR ''[''
            then (case skip_ws r of
                    [] \<Rightarrow> None
                  | d # r' \<Rightarrow> if d = CHR '']'' then Some (JList [], r')
                              else (case read_items n [] r of
                                      None \<Rightarrow> None
                                    | Some (vs, r'') \<Rightarrow> Some (JList vs, r'')))
          else if c = CHR ''{''
            then (case skip_ws r of
                    [] \<Rightarrow> None
                  | d # r' \<Rightarrow> if d = CHR ''}'' then Some (JDict [], r')
                              else (case read_members n [] r of
                                      None \<Rightarrow> None
                                    | Some (kvs, r'') \<Rightarrow> Some (JDict kvs, r'')))
          else None)"
| "read_items 0 acc t = None"
| "read_items (Suc n) acc t =
     (case read_value n t of
        None \<Rightarrow> None
      | Some (v, r) \<Rightarrow>
          (case skip_ws r of
             [] \<Rightarrow> None
           | c # r' \<Rightarrow> if c = CHR '','' then read_items n (acc @ [v]) r'
                       else if c = CHR '']'' then Some (acc @ [v], r')
                       else None))"
| "read_members 0 acc t = None"
| "read_members (Suc n) acc t =
     (case skip_ws t of
        [] \<Rightarrow> None
      | q # r \<Rightarrow>
          if q \<noteq> CHR 0x22 then None
          else (case read_chars [] r of
                  None \<Rightarrow> None
                | Some (k, r1) \<Rightarrow>
                    (case skip_ws r1 of
                       [] \<Rightarrow> None
                     | c # r2 \<Rightarrow>
                         if c \<noteq> CHR '':'' then None
                         else (case read_value n r2 of
                                 None \<Rightarrow> None
                               | Some (v, r3) \<Rightarrow>
                                   (case skip_ws r3 of
                                      [] \<Rightarrow> None
                                    | d # r4 \<Rightarrow>
                                        if d = CHR '','' then read_members n (acc @ [(k, v)]) r4
                                        else if d = CHR ''}'' then Some (acc @ [(k, v)], r4)
                                        else None)))))"

text \<open>The value a text denotes, if the whole text is one well-formed JSON value.\<close>

definition json_parse :: "string \<Rightarrow> json option" where
  "json_parse t =
     (case read_value (length t) t of
        None \<Rightarrow> None
      | Some (v, r) \<Rightarrow> if skip_ws r = [] then Some v else None)"

text \<open>Reading a configuration: a member of an object, the items of an array.\<close>

definition member :: "string \<Rightarrow> json \<Rightarrow> json option" where
  "member k v = (case v of JDict kvs \<Rightarrow> map_of kvs k | _ \<Rightarrow> None)"

definition items :: "json option \<Rightarrow> json list" where
  "items v = (case v of Some (JList vs) \<Rightarrow> vs | _ \<Rightarrow> [])"

text \<open>The environment entries declared by the services of a configuration, as their keys.\<close>

definition declared_env_keys :: "json \<Rightarrow> json option list" where
  "declared_env_keys cfg =
     concat (map (\<lambda>service. map (member ''key'') (items (member ''envVars'' service)))
                 (items (member ''services'' cfg)))"

section \<open>Sample runs\<close>

text \<open>
  A world in which the three deploy commands are rejected and every other command
  succeeds, and one in which the Heroku tool is missing and the provider refuses one price.
\<close>

definition rejecting_world :: world where
  "rejecting_world =
     \<lparr>subprocess = (\<lambda>h argv inp.
        if argv = [''vercel'', ''--prod''] \<or> argv = [''git'', ''push'', ''heroku'', ''main'']
           \<or> argv = [''railway'', ''up'']
        then Exited 1 [] ''rejected'' else Exited 0 [] []),
      token_urlsafe = (\<lambda>h n. ''Zm9vYmFy''),
      stripe_api = (\<lambda>h c. Inr ''id_1'')\<rparr>"

definition bare_world :: world where
  "bare_world =
     \<lparr>subprocess = (\<lambda>h argv inp. if hd argv = ''heroku'' then NotFound else Exited 0 [] []),
      token_urlsafe = (\<lambda>h n. ''Zm9vYmFy''),
      stripe_api = (\<lambda>h c. case c of
                       ProductCreate name d \<Rightarrow> Inr ''prod_1''
                     | PriceCreate p amount cur i \<Rightarrow>
                         if amount = 29999 then Inl ''card network unavailable''
                         else Inr ''price_1'')\<rparr>"

text \<open>A fresh process that will read the given lines.\<close>

definition fresh :: "string list \<Rightarrow> state" where
  "fresh lines = \<lparr>stdin = lines, trace = []\<rparr>"

text \<open>
  The answers of an operator to \<open>get_production_env_vars\<close>: the three payment keys, and
  nothing for the market data keys.
\<close>

definition payment_keys :: "string list" where
  "payment_keys = [''pk_live_1'', ''sk_live_1'', ''whsec_1'', [], '' '']"

text \<open>An operator who leaves the placeholder in place of the publishable key.\<close>

definition placeholder_typed :: state where
  "placeholder_typed =
     fresh [''your-key-here'', ''sk_live_1'', ''whsec_1'', ''av_1'', []]"

section \<open>Evaluation\<close>

lemmas exec = ret_def bind_def andthen_def emit_def print_def input_def run_def
  run_checked_def except_cli_def except_any_def stripe_create_def generate_secret_key_def

lemmas text_ops = strip_def lstrip_def rstrip_def whitespace_def lstrip_with.simps
  split_def title_def lower_def to_lower_def to_upper_def is_cased_def
  uppercase_def lowercase_def

section \<open>String operations on examples\<close>

lemma text_examples:
  "strip ''  2 '' = ''2''"
  "strip [CHR 0x09, CHR 0xC2, CHR 0xA0] = []"
  "split ''a-b--c'' ''-'' = [''a'', ''b'', [], ''c'']"
  "split ''xWeb URL: u Web URL:v'' ''Web URL:'' = [''x'', '' u '', ''v'']"
  "title ''my-app2go'' = ''My-App2Go''"
  "lower ''HeRoKu'' = ''heroku''"
  by (simp_all add: text_ops)

lemma rule_line: "replicate 50 CHR ''='' = ''==================================================''"
  by code_simp

text \<open>
  \<open>find_web_url\<close> reads piece 1 of a line split at \<open>Web URL:\<close>, and does so only when the
  line contains that text; the piece is then there.
\<close>

lemma split_from_nonempty: "split_from sep acc s \<noteq> []"
  by (induction sep acc s rule: split_from.induct) auto

lemma split_from_two:
  "contains sep s \<Longrightarrow> sep \<noteq> [] \<Longrightarrow> 2 \<le> length (split_from sep acc s)"
proof (induction sep acc s rule: split_from.induct)
  case (1 sep acc)
  then show ?case by simp
next
  case (2 sep acc c cs)
  show ?case
  proof (cases "startswith sep (c # cs)")
    case True
    have "1 \<le> length (split_from sep [] (drop (length sep) (c # cs)))"
      using split_from_nonempty[of sep "[]" "drop (length sep) (c # cs)"]
      by (simp add: Suc_le_eq)
    with True "2.prems" show ?thesis by simp
  next
    case False
    with "2.prems" have "contains sep cs" by simp
    with False "2.IH"(2) "2.prems" show ?thesis by simp
  qed
qed

lemma split_piece_in_range: "contains ''Web URL:'' line \<Longrightarrow> 1 < length (split line ''Web URL:'')"
  using split_from_two[of "''Web URL:''" line "[]"] by (simp add: split_def)


section \<open>What programs add to the trace\<close>

lemma new_events_append: "trace s' = trace s @ evs \<Longrightarrow> new_events s s' = evs"
  by (simp add: new_events_def)

lemma emits_ret: "emits P (ret x)"
  by (simp add: emits_def ret_def)

lemma emits_emit: "P e \<Longrightarrow> emits P (emit e)"
  by (simp add: emits_def emit_def)

lemma emits_print: "P (Print t) \<Longrightarrow> emits P (print t)"
  by (simp add: print_def emits_emit)

lemma emits_input: "(\<And>x. P (Ask p x)) \<Longrightarrow> emits P (input p)"
  by (simp add: emits_def input_def split: list.splits)

lemma emits_run: "(\<And>out. P (Run argv inp out)) \<Longrightarrow> emits P (run W c argv inp)"
  by (simp add: emits_def run_def Let_def split: outcome.splits)

lemma emits_bind: "emits P m \<Longrightarrow> (\<And>x. emits P (f x)) \<Longrightarrow> emits P (bind m f)"
proof (unfold emits_def, intro allI)
  fix s
  assume m: "\<forall>s. \<exists>evs. trace (snd (m s)) = trace s @ evs \<and> list_all P evs"
    and f: "\<And>x. \<forall>s. \<exists>evs. trace (snd (f x s)) = trace s @ evs \<and> list_all P evs"
  obtain r s1 where ms: "m s = (r, s1)" by (cases "m s")
  from m ms obtain evs1 where e1: "trace s1 = trace s @ evs1" "list_all P evs1"
    by (metis snd_conv)
  show "\<exists>evs. trace (snd (bind m f s)) = trace s @ evs \<and> list_all P evs"
  proof (cases r)
    case (Inl e)
    with ms e1 show ?thesis by (simp add: bind_def)
  next
    case (Inr x)
    from f[of x] obtain evs2 where "trace (snd (f x s1)) = trace s1 @ evs2" "list_all P evs2"
      by blast
    with Inr ms e1 show ?thesis by (simp add: bind_def)
  qed
qed

lemma emits_andthen: "emits P m \<Longrightarrow> emits P n \<Longrightarrow> emits P (andthen m n)"
  by (simp add: andthen_def emits_bind)

lemma emits_run_checked: "(\<And>out. P (Run argv inp out)) \<Longrightarrow> emits P (run_checked W argv inp)"
  by (simp add: run_checked_def emits_andthen emits_run emits_ret)

lemma emits_if: "emits P a \<Longrightarrow> emits P b \<Longrightarrow> emits P (if c then a else b)"
  by simp

lemma emits_except_cli: "emits P m \<Longrightarrow> emits P h \<Longrightarrow> emits P (except_cli m h)"
proof (unfold emits_def, intro allI)
  fix s
  assume m: "\<forall>s. \<exists>evs. trace (snd (m s)) = trace s @ evs \<and> list_all P evs"
    and h: "\<forall>s. \<exists>evs. trace (snd (h s)) = trace s @ evs \<and> list_all P evs"
  obtain r s1 where ms: "m s = (r, s1)" by (cases "m s")
  from m ms obtain evs1 where e1: "trace s1 = trace s @ evs1" "list_all P evs1"
    by (metis snd_conv)
  from h obtain evs2 where e2: "trace (snd (h s1)) = trace s1 @ evs2" "list_all P evs2"
    by blast
  show "\<exists>evs. trace (snd (except_cli m h s)) = trace s @ evs \<and> list_all P evs"
    using ms e1 e2 by (auto simp: except_cli_def split: sum.splits exn.splits)
qed

lemma emits_except_any: "emits P m \<Longrightarrow> (\<And>e. emits P (h e)) \<Longrightarrow> emits P (except_any m h)"
proof (unfold emits_def, intro allI)
  fix s
  assume m: "\<forall>s. \<exists>evs. trace (snd (m s)) = trace s @ evs \<and> list_all P evs"
    and h: "\<And>e. \<forall>s. \<exists>evs. trace (snd (h e s)) = trace s @ evs \<and> list_all P evs"
  obtain r s1 where ms: "m s = (r, s1)" by (cases "m s")
  from m ms obtain evs1 where e1: "trace s1 = trace s @ evs1" "list_all P evs1"
    by (metis snd_conv)
  show "\<exists>evs. trace (snd (except_any m h s)) = trace s @ evs \<and> list_all P evs"
  proof (cases r)
    case (Inl e)
    from h[of e] obtain evs2 where "trace (snd (h e s1)) = trace s1 @ evs2" "list_all P evs2"
      by blast
    with Inl ms e1 show ?thesis by (simp add: except_any_def)
  next
    case (Inr x)
    with ms e1 show ?thesis by (simp add: except_any_def)
  qed
qed

lemma emits_stripe_create: "(\<And>r. P (Stripe c r)) \<Longrightarrow> emits P (stripe_create W c)"
  by (simp add: emits_def stripe_create_def Let_def split: sum.splits)

lemma emits_generate_secret_key: "emits P (generate_secret_key W)"
  by (simp add: emits_def generate_secret_key_def)

lemma emits_push_env:
  "(\<And>k v out. pushable v \<Longrightarrow> P (Run (fst (cmd k v)) (snd (cmd k v)) out))
   \<Longrightarrow> emits P (push_env W cmd kvs)"
  by (induction kvs) (auto intro!: emits_ret emits_andthen emits_run_checked)

lemma emits_case_prod3:
  "(\<And>a b c. emits P (f a b c)) \<Longrightarrow> emits P (case x of (a, b, c) \<Rightarrow> f a b c)"
  by (cases x) simp

lemma emits_mono: "emits P m \<Longrightarrow> (\<And>e. P e \<Longrightarrow> Q e) \<Longrightarrow> emits Q m"
  unfolding emits_def list_all_iff by blast

lemma emits_any: "emits P m \<Longrightarrow> emits (\<lambda>e. True) m"
  by (erule emits_mono) simp

lemmas emits_intros = emits_ret emits_emit emits_print emits_input emits_run emits_bind
  emits_andthen emits_run_checked emits_if emits_except_cli emits_except_any
  emits_stripe_create emits_generate_secret_key emits_push_env emits_case_prod3

text \<open>The events of a run, taken apart along a sequential composition.\<close>

lemma emitsD:
  assumes "emits P m" and "m s = (r, s')"
  obtains evs where "trace s' = trace s @ evs" and "list_all P evs"
    and "new_events s s' = evs"
  using assms unfolding emits_def by (metis new_events_append snd_conv)


lemma new_events_trans:
  "trace s1 = trace s @ evs1 \<Longrightarrow> trace s2 = trace s1 @ evs2 \<Longrightarrow> new_events s s2 = evs1 @ evs2"
  by (simp add: new_events_def)

text \<open>A run of \<open>bind m f\<close> is a run of \<open>m\<close> that raised, or a run of \<open>m\<close> and then one of \<open>f\<close>.\<close>

lemma bind_run_cases:
  assumes m: "emits P m" and f: "\<And>x. emits Q (f x)"
  obtains (raised) e where "bind m f s = (Inl e, snd (m s))" and "fst (m s) = Inl e"
      and "list_all P (new_events s (snd (m s)))"
    | (passed) x s1 where "m s = (Inr x, s1)" and "bind m f s = f x s1"
      and "list_all P (new_events s s1)" and "list_all Q (new_events s1 (snd (f x s1)))"
      and "new_events s (snd (f x s1)) = new_events s s1 @ new_events s1 (snd (f x s1))"
proof -
  obtain r s1 where ms: "m s = (r, s1)" by (cases "m s")
  from m ms obtain evs1 where e1: "trace s1 = trace s @ evs1" "list_all P evs1"
    "new_events s s1 = evs1" by (rule emitsD)
  show thesis
  proof (cases r)
    case (Inl e)
    with ms e1 show ?thesis by (intro raised[of e]) (simp_all add: bind_def)
  next
    case (Inr x)
    obtain r2 s2 where fs: "f x s1 = (r2, s2)" by (cases "f x s1")
    from f[of x] fs obtain evs2 where e2: "trace s2 = trace s1 @ evs2" "list_all Q evs2"
      "new_events s1 s2 = evs2" by (rule emitsD)
    from e1 e2 have "new_events s s2 = evs1 @ evs2" by (simp add: new_events_trans)
    with Inr ms e1 e2 fs show ?thesis
      by (intro passed[of x s1]) (simp_all add: bind_def)
  qed
qed


text \<open>
  A property of the last part of a program, triggered by an event \<open>h\<close> that only the last
  part can emit, holds of the whole program.
\<close>

lemma bind_tail:
  assumes pre: "emits (\<lambda>e. \<not> h e \<and> \<not> g e) m"
    and post: "\<And>x. emits (\<lambda>e. True) (f x)"
    and last_part: "\<And>x s1. list_ex h (new_events s1 (snd (f x s1))) \<Longrightarrow>
               R (fst (f x s1)) \<and> \<not> list_ex g (new_events s1 (snd (f x s1)))
               \<and> T (new_events s1 (snd (f x s1)))"
    and ext: "\<And>front evs. T evs \<Longrightarrow> T (front @ evs)"
    and hyp: "list_ex h (new_events s (snd (bind m f s)))"
  shows "R (fst (bind m f s)) \<and> \<not> list_ex g (new_events s (snd (bind m f s)))
         \<and> T (new_events s (snd (bind m f s)))"
proof (rule bind_run_cases[where f = f and s = s, OF pre post], goal_cases raised passed)
  case (raised e)
  with hyp show ?case by (auto simp add: list_all_iff list_ex_iff)
next
  case (passed x s1)
  then have quiet: "\<not> list_ex h (new_events s s1)" "\<not> list_ex g (new_events s s1)"
    by (auto simp: list_all_iff list_ex_iff)
  with hyp passed have "list_ex h (new_events s1 (snd (f x s1)))" by simp
  from last_part[OF this] passed quiet ext show ?case by simp
qed

lemma andthen_tail:
  assumes pre: "emits (\<lambda>e. \<not> h e \<and> \<not> g e) m"
    and post: "emits (\<lambda>e. True) n"
    and last_part: "\<And>s1. list_ex h (new_events s1 (snd (n s1))) \<Longrightarrow>
               R (fst (n s1)) \<and> \<not> list_ex g (new_events s1 (snd (n s1)))
               \<and> T (new_events s1 (snd (n s1)))"
    and ext: "\<And>front evs. T evs \<Longrightarrow> T (front @ evs)"
    and hyp: "list_ex h (new_events s (snd (andthen m n s)))"
  shows "R (fst (andthen m n s)) \<and> \<not> list_ex g (new_events s (snd (andthen m n s)))
         \<and> T (new_events s (snd (andthen m n s)))"
  using bind_tail[where h = h and g = g and m = m and f = "\<lambda>_. n" and R = R and T = T and s = s]
    assms unfolding andthen_def by blast


section \<open>Secret collection and the billing prompt\<close>

lemma get_production_env_vars_run:
  "stdin s = a # b # c # d # e # rest \<Longrightarrow>
   get_production_env_vars W s =
     (Inr ([(''FLASK_ENV'', ''production''),
            (''SECRET_KEY'', token_urlsafe W (trace s @
               [Print (nl # money_bag @ '' Setting up monetization (Stripe)...''),
                Print ''Get your Stripe keys from: https://dashboard.stripe.com/apikeys'',
                Ask ''Stripe Publishable Key (pk_live_...): '' (Some a),
                Ask ''Stripe Secret Key (sk_live_...): '' (Some b),
                Ask ''Stripe Webhook Secret (whsec_...): '' (Some c)]) 32),
            (''STRIPE_PUBLISHABLE_KEY'', strip a),
            (''STRIPE_SECRET_KEY'', strip b),
            (''STRIPE_WEBHOOK_SECRET'', strip c)]
           @ (if strip d \<noteq> [] then [(''ALPHA_VANTAGE_API_KEY'', strip d)] else [])
           @ (if strip e \<noteq> [] then [(''IEX_API_KEY'', strip e)] else [])),
      s\<lparr>stdin := rest, trace := trace s @
               [Print (nl # money_bag @ '' Setting up monetization (Stripe)...''),
                Print ''Get your Stripe keys from: https://dashboard.stripe.com/apikeys'',
                Ask ''Stripe Publishable Key (pk_live_...): '' (Some a),
                Ask ''Stripe Secret Key (sk_live_...): '' (Some b),
                Ask ''Stripe Webhook Secret (whsec_...): '' (Some c),
                Print (nl # bar_chart @ '' Optional: Market Data API Keys (press Enter to skip)''),
                Ask ''Alpha Vantage API Key: '' (Some d),
                Ask ''IEX Cloud API Key: '' (Some e)]\<rparr>)"
  by (simp add: get_production_env_vars_def exec Let_def dict_update_def)

lemma get_production_env_vars_needs_five:
  "get_production_env_vars W s = (Inr kvs, s')
   \<Longrightarrow> \<exists>a b c d e rest. stdin s = a # b # c # d # e # rest"
  by (simp add: get_production_env_vars_def exec Let_def dict_update_def split: list.splits)

lemma five_lines: "5 \<le> length xs \<Longrightarrow> \<exists>a b c d e rest. xs = a # b # c # d # e # rest"
  by (cases xs; simp; rename_tac ys; case_tac ys; simp; rename_tac zs; case_tac zs; simp;
      rename_tac us; case_tac us; simp; rename_tac vs; case_tac vs; simp)


section \<open>The loops that push the variables\<close>

lemma push_env_emits:
  "emits (\<lambda>ev. \<exists>k v out. (k, v) \<in> set kvs \<and> pushable v
                \<and> ev = Run (fst (cmd k v)) (snd (cmd k v)) out)
     (push_env W cmd kvs)"
proof (induction kvs)
  case Nil
  show ?case by (simp add: emits_ret)
next
  case (Cons kv kvs)
  obtain k v where kv: "kv = (k, v)" by (cases kv)
  have first: "emits (\<lambda>ev. \<exists>k' v' out. (k', v') \<in> set (kv # kvs) \<and> pushable v'
                  \<and> ev = Run (fst (cmd k' v')) (snd (cmd k' v')) out)
     (if pushable v then run_checked W (fst (cmd k v)) (snd (cmd k v)) else ret ())"
    by (cases "pushable v") (auto simp: kv intro!: emits_run_checked emits_ret)
  have others: "emits (\<lambda>ev. \<exists>k' v' out. (k', v') \<in> set (kv # kvs) \<and> pushable v'
                  \<and> ev = Run (fst (cmd k' v')) (snd (cmd k' v')) out)
     (push_env W cmd kvs)"
    by (rule emits_mono[OF Cons.IH]) auto
  from first others show ?case by (simp add: kv emits_andthen)
qed

lemma push_env_events:
  assumes "ev \<in> set (new_events s (snd (push_env W cmd kvs s)))"
  shows "\<exists>k v out. (k, v) \<in> set kvs \<and> v \<noteq> [] \<and> v \<noteq> ''your-key-here''
           \<and> ev = Run (fst (cmd k v)) (snd (cmd k v)) out"
proof -
  obtain r s' where run: "push_env W cmd kvs s = (r, s')" by (cases "push_env W cmd kvs s")
  from push_env_emits run obtain evs where
    "list_all (\<lambda>ev. \<exists>k v out. (k, v) \<in> set kvs \<and> pushable v
                \<and> ev = Run (fst (cmd k v)) (snd (cmd k v)) out) evs"
    and "new_events s s' = evs" by (rule emitsD)
  with assms run show ?thesis by (auto simp: list_all_iff pushable_def)
qed


section \<open>A rejected deploy command\<close>

lemma vercel_prepare_quiet:
  "emits (\<lambda>e. \<not> failed_run [''vercel'', ''--prod''] e \<and> \<not> is_live e) (vercel_prepare W)"
  unfolding vercel_prepare_def get_production_env_vars_def Let_def
  by (intro emits_intros;
      simp add: is_live_def failed_run_def vercel_env_add_def split: outcome.splits)

lemma vercel_release_events: "emits (\<lambda>e. True) (vercel_release W)"
  unfolding vercel_release_def Let_def by (intro emits_intros; simp)

lemma vercel_release_rejected:
  assumes "list_ex (failed_run [''vercel'', ''--prod'']) (new_events s (snd (vercel_release W s)))"
  shows "\<exists>rc so se. rc \<noteq> 0 \<and> vercel_release W s =
           (Inr None, s\<lparr>trace := trace s @
              [Print (rocket @ '' Deploying to Vercel...''),
               Run [''vercel'', ''--prod''] None (Exited rc so se),
               Print (cross @ '' Deployment failed: '' @ se)]\<rparr>)"
proof (cases "subprocess W (trace s @ [Print (rocket @ '' Deploying to Vercel...'')])
                [''vercel'', ''--prod''] None")
  case NotFound
  with assms show ?thesis
    by (simp add: vercel_release_def exec new_events_def failed_run_def)
next
  case (Exited rc so se)
  show ?thesis
  proof (cases "rc = 0")
    case True
    with Exited assms show ?thesis
      by (simp add: vercel_release_def exec new_events_def failed_run_def Let_def)
  next
    case False
    with Exited show ?thesis
      by (intro exI[of _ rc] exI[of _ so] exI[of _ se]) (simp add: vercel_release_def exec)
  qed
qed

lemma deploy_vercel_rejected:
  assumes "list_ex (failed_run [''vercel'', ''--prod'']) (new_events s (snd (deploy_vercel W s)))"
  shows "fst (deploy_vercel W s) = Inr None
       \<and> \<not> list_ex is_live (new_events s (snd (deploy_vercel W s)))
       \<and> (\<exists>front rc so se. rc \<noteq> 0 \<and> new_events s (snd (deploy_vercel W s)) =
            front @ [Run [''vercel'', ''--prod''] None (Exited rc so se),
                     Print (cross @ '' Deployment failed: '' @ se)])"
proof -
  let ?h = "failed_run [''vercel'', ''--prod'']"
  let ?T = "\<lambda>evs. \<exists>front rc so se. rc \<noteq> 0 \<and> evs =
            front @ [Run [''vercel'', ''--prod''] None (Exited rc so se),
                     Print (cross @ '' Deployment failed: '' @ se)]"
  let ?inner = "andthen (vercel_prepare W) (vercel_release W)"
  have ext: "\<And>front evs. ?T evs \<Longrightarrow> ?T (front @ evs)"
    by (metis append.assoc)
  have release: "fst (vercel_release W s1) = Inr None
       \<and> \<not> list_ex is_live (new_events s1 (snd (vercel_release W s1)))
       \<and> ?T (new_events s1 (snd (vercel_release W s1)))"
    if "list_ex ?h (new_events s1 (snd (vercel_release W s1)))" for s1
  proof -
    from vercel_release_rejected[OF that] obtain rc so se where rc: "rc \<noteq> 0"
      and rel: "vercel_release W s1 = (Inr None, s1\<lparr>trace := trace s1 @
              [Print (rocket @ '' Deploying to Vercel...''),
               Run [''vercel'', ''--prod''] None (Exited rc so se),
               Print (cross @ '' Deployment failed: '' @ se)]\<rparr>)" by blast
    have "new_events s1 (snd (vercel_release W s1)) =
          [Print (rocket @ '' Deploying to Vercel...'')]
          @ [Run [''vercel'', ''--prod''] None (Exited rc so se),
             Print (cross @ '' Deployment failed: '' @ se)]"
      by (simp add: rel new_events_def)
    moreover have "\<not> list_ex is_live (new_events s1 (snd (vercel_release W s1)))"
      by (simp add: rel new_events_def is_live_def)
    ultimately show ?thesis using rc rel by (metis fst_conv)
  qed
  have inner: "fst (?inner s1) = Inr None
       \<and> \<not> list_ex is_live (new_events s1 (snd (?inner s1)))
       \<and> ?T (new_events s1 (snd (?inner s1)))"
    if "list_ex ?h (new_events s1 (snd (?inner s1)))" for s1
    using vercel_prepare_quiet vercel_release_events release ext that
    by (rule andthen_tail)
  have banner: "emits (\<lambda>e. \<not> ?h e \<and> \<not> is_live e)
                  (print (rocket @ '' Deploying OptionScope to Vercel...''))"
    by (intro emits_intros; simp add: is_live_def failed_run_def)
  have inner_events: "emits (\<lambda>e. True) ?inner"
    by (intro emits_andthen emits_any[OF vercel_prepare_quiet] vercel_release_events)
  from assms have "list_ex ?h (new_events s
      (snd (andthen (print (rocket @ '' Deploying OptionScope to Vercel...'')) ?inner s)))"
    by (simp add: deploy_vercel_def)
  with banner inner_events inner ext
  have "fst (andthen (print (rocket @ '' Deploying OptionScope to Vercel...'')) ?inner s) = Inr None
       \<and> \<not> list_ex is_live (new_events s (snd (andthen (print (rocket @ '' Deploying OptionScope to Vercel...'')) ?inner s)))
       \<and> ?T (new_events s (snd (andthen (print (rocket @ '' Deploying OptionScope to Vercel...'')) ?inner s)))"
    by (rule andthen_tail)
  then show ?thesis by (simp add: deploy_vercel_def)
qed

lemma heroku_release_events: "emits (\<lambda>e. True) (heroku_release W)"
  unfolding heroku_release_def Let_def by (intro emits_intros; simp)

lemma heroku_prepare_quiet:
  "emits (\<lambda>e. \<not> failed_run [''git'', ''push'', ''heroku'', ''main''] e \<and> \<not> is_live e)
     (heroku_prepare W)"
  unfolding heroku_prepare_def get_production_env_vars_def Let_def
  by (intro emits_intros;
      simp add: is_live_def failed_run_def heroku_config_set_def split: outcome.splits)

lemma heroku_release_rejected:
  assumes "list_ex (failed_run [''git'', ''push'', ''heroku'', ''main''])
             (new_events s (snd (heroku_release W s)))"
  shows "(\<exists>rc. rc \<noteq> 0 \<and> fst (heroku_release W s)
              = Inl (CalledProcessError rc [''git'', ''push'', ''heroku'', ''main'']))
       \<and> \<not> list_ex is_live (new_events s (snd (heroku_release W s)))
       \<and> (\<exists>front rc so se. rc \<noteq> 0 \<and> new_events s (snd (heroku_release W s)) =
             front @ [Run [''git'', ''push'', ''heroku'', ''main''] None (Exited rc so se)])"
  using assms
  by (auto simp add: heroku_release_def exec new_events_def failed_run_def is_live_def Let_def
      split: outcome.splits if_splits)

lemma deploy_heroku_rejected:
  assumes "list_ex (failed_run [''git'', ''push'', ''heroku'', ''main''])
             (new_events s (snd (deploy_heroku W s)))"
  shows "(\<exists>rc. rc \<noteq> 0 \<and> fst (deploy_heroku W s)
              = Inl (CalledProcessError rc [''git'', ''push'', ''heroku'', ''main'']))
       \<and> \<not> list_ex is_live (new_events s (snd (deploy_heroku W s)))
       \<and> (\<exists>front rc so se. rc \<noteq> 0 \<and> new_events s (snd (deploy_heroku W s)) =
             front @ [Run [''git'', ''push'', ''heroku'', ''main''] None (Exited rc so se)])"
proof -
  let ?h = "failed_run [''git'', ''push'', ''heroku'', ''main'']"
  let ?R = "\<lambda>r. \<exists>rc. rc \<noteq> 0 \<and> r = Inl (CalledProcessError rc [''git'', ''push'', ''heroku'', ''main''])"
  let ?T = "\<lambda>evs. \<exists>front rc so se. rc \<noteq> 0 \<and> evs =
             front @ [Run [''git'', ''push'', ''heroku'', ''main''] None (Exited rc so se)]"
  let ?inner = "andthen (heroku_prepare W) (heroku_release W)"
  let ?k = "\<lambda>found. if \<not> found then ret None else ?inner"
  let ?probe = "except_cli (andthen (run_checked W [''heroku'', ''--version''] None) (ret True))
             (andthen (print (cross @ '' Heroku CLI not found. Please install it first.''))
                      (ret False))"
  have ext: "\<And>front evs. ?T evs \<Longrightarrow> ?T (front @ evs)"
    by (metis append.assoc)
  have inner: "?R (fst (?inner s1)) \<and> \<not> list_ex is_live (new_events s1 (snd (?inner s1)))
       \<and> ?T (new_events s1 (snd (?inner s1)))"
    if "list_ex ?h (new_events s1 (snd (?inner s1)))" for s1
    using heroku_prepare_quiet heroku_release_events heroku_release_rejected ext that
    by (rule andthen_tail)
  have k: "?R (fst (?k found s1)) \<and> \<not> list_ex is_live (new_events s1 (snd (?k found s1)))
       \<and> ?T (new_events s1 (snd (?k found s1)))"
    if "list_ex ?h (new_events s1 (snd (?k found s1)))" for found s1
    using that inner[of s1] by (cases found) (simp_all add: ret_def new_events_def)
  have k_events: "emits (\<lambda>e. True) (?k found)" for found
    by (intro emits_intros emits_any[OF heroku_prepare_quiet] heroku_release_events)
  have probe: "emits (\<lambda>e. \<not> ?h e \<and> \<not> is_live e) ?probe"
    by (intro emits_intros; simp add: is_live_def failed_run_def split: outcome.splits)
  have rest: "?R (fst (bind ?probe ?k s1))
       \<and> \<not> list_ex is_live (new_events s1 (snd (bind ?probe ?k s1)))
       \<and> ?T (new_events s1 (snd (bind ?probe ?k s1)))"
    if "list_ex ?h (new_events s1 (snd (bind ?probe ?k s1)))" for s1
    using probe k_events k ext that by (rule bind_tail)
  have banner: "emits (\<lambda>e. \<not> ?h e \<and> \<not> is_live e)
                  (print (rocket @ '' Deploying OptionScope to Heroku...''))"
    by (intro emits_intros; simp add: is_live_def failed_run_def)
  have rest_events: "emits (\<lambda>e. True) (bind ?probe ?k)"
    by (intro emits_bind emits_any[OF probe] k_events)
  from assms have "list_ex ?h (new_events s
      (snd (andthen (print (rocket @ '' Deploying OptionScope to Heroku...'')) (bind ?probe ?k) s)))"
    by (simp add: deploy_heroku_def)
  with banner rest_events rest ext
  have "?R (fst (andthen (print (rocket @ '' Deploying OptionScope to Heroku...'')) (bind ?probe ?k) s))
       \<and> \<not> list_ex is_live (new_events s (snd (andthen (print (rocket @ '' Deploying OptionScope to Heroku...'')) (bind ?probe ?k) s)))
       \<and> ?T (new_events s (snd (andthen (print (rocket @ '' Deploying OptionScope to Heroku...'')) (bind ?probe ?k) s)))"
    by (rule andthen_tail)
  then show ?thesis by (simp add: deploy_heroku_def)
qed

lemma railway_prepare_quiet:
  "emits (\<lambda>e. \<not> failed_run [''railway'', ''up''] e \<and> \<not> is_live e) (railway_prepare W)"
  unfolding railway_prepare_def get_production_env_vars_def Let_def
  by (intro emits_intros;
      simp add: is_live_def failed_run_def railway_variables_set_def split: outcome.splits)

lemma railway_release_events: "emits (\<lambda>e. True) (railway_release W)"
  unfolding railway_release_def by (intro emits_intros; simp)

lemma railway_release_rejected:
  assumes "list_ex (failed_run [''railway'', ''up'']) (new_events s (snd (railway_release W s)))"
  shows "(\<exists>rc. rc \<noteq> 0 \<and> fst (railway_release W s) = Inl (CalledProcessError rc [''railway'', ''up'']))
       \<and> \<not> list_ex is_live (new_events s (snd (railway_release W s)))
       \<and> (\<exists>front rc so se. rc \<noteq> 0 \<and> new_events s (snd (railway_release W s)) =
             front @ [Run [''railway'', ''up''] None (Exited rc so se)])"
  using assms
  by (auto simp add: railway_release_def exec new_events_def failed_run_def is_live_def Let_def
      split: outcome.splits if_splits)

lemma deploy_railway_rejected:
  assumes "list_ex (failed_run [''railway'', ''up'']) (new_events s (snd (deploy_railway W s)))"
  shows "(\<exists>rc. rc \<noteq> 0 \<and> fst (deploy_railway W s) = Inl (CalledProcessError rc [''railway'', ''up'']))
       \<and> \<not> list_ex is_live (new_events s (snd (deploy_railway W s)))
       \<and> (\<exists>front rc so se. rc \<noteq> 0 \<and> new_events s (snd (deploy_railway W s)) =
             front @ [Run [''railway'', ''up''] None (Exited rc so se)])"
proof -
  let ?h = "failed_run [''railway'', ''up'']"
  let ?R = "\<lambda>r. \<exists>rc. rc \<noteq> 0 \<and> r = Inl (CalledProcessError rc [''railway'', ''up''])"
  let ?T = "\<lambda>evs. \<exists>front rc so se. rc \<noteq> 0 \<and> evs =
             front @ [Run [''railway'', ''up''] None (Exited rc so se)]"
  let ?inner = "andthen (railway_prepare W) (railway_release W)"
  have ext: "\<And>front evs. ?T evs \<Longrightarrow> ?T (front @ evs)"
    by (metis append.assoc)
  have inner: "?R (fst (?inner s1))
       \<and> \<not> list_ex is_live (new_events s1 (snd (?inner s1)))
       \<and> ?T (new_events s1 (snd (?inner s1)))"
    if "list_ex ?h (new_events s1 (snd (?inner s1)))" for s1
    using railway_prepare_quiet railway_release_events railway_release_rejected ext that
    by (rule andthen_tail)
  have banner: "emits (\<lambda>e. \<not> ?h e \<and> \<not> is_live e)
                  (print (rocket @ '' Deploying OptionScope to Railway...''))"
    by (intro emits_intros; simp add: is_live_def failed_run_def)
  have inner_events: "emits (\<lambda>e. True) ?inner"
    by (intro emits_andthen emits_any[OF railway_prepare_quiet] railway_release_events)
  from assms have "list_ex ?h (new_events s
      (snd (andthen (print (rocket @ '' Deploying OptionScope to Railway...'')) ?inner s)))"
    by (simp add: deploy_railway_def)
  with banner inner_events inner ext
  have "?R (fst (andthen (print (rocket @ '' Deploying OptionScope to Railway...'')) ?inner s))
       \<and> \<not> list_ex is_live (new_events s (snd (andthen (print (rocket @ '' Deploying OptionScope to Railway...'')) ?inner s)))
       \<and> ?T (new_events s (snd (andthen (print (rocket @ '' Deploying OptionScope to Railway...'')) ?inner s)))"
    by (rule andthen_tail)
  then show ?thesis by (simp add: deploy_railway_def)
qed


lemmas routines = deploy_vercel_def vercel_prepare_def vercel_release_def
  deploy_heroku_def heroku_prepare_def heroku_release_def
  deploy_railway_def railway_prepare_def railway_release_def deploy_render_def
  get_production_env_vars_def setup_stripe_products_def create_products_def
  vercel_env_add_def heroku_config_set_def railway_variables_set_def pushable_def
  dict_update_def Let_def


section \<open>Billing product setup\<close>

lemma stripe_create_bind:
  "bind (stripe_create W c) f s =
     (case stripe_api W (trace s) c of
        Inl msg \<Rightarrow> (Inl (ProviderError msg), s\<lparr>trace := trace s @ [Stripe c (Inl msg)]\<rparr>)
      | Inr ident \<Rightarrow> f ident (s\<lparr>trace := trace s @ [Stripe c (Inr ident)]\<rparr>))"
  by (simp add: bind_def stripe_create_def Let_def split: sum.splits)

text \<open>The runs of \<open>setup_stripe_products\<close> with a key: a failure at one of the six calls, or none.\<close>

lemma setup_stripe_products_cases:
  assumes "stdin s = l # rest" and "strip l \<noteq> []"
  obtains
    (failed1) m where "setup_stripe_products W s =
      (Inr (), s\<lparr>stdin := rest, trace := trace s @
        [Print (nl # credit_card @ '' Setting up Stripe products...''),
         Ask ''Enter your Stripe Secret Key: '' (Some l),
         SetApiKey (strip l),
         Stripe (ProductCreate ''OptionScope Pro'' ''Advanced options trading analytics for serious traders'') (Inl m),
         Print (cross @ '' Error setting up Stripe: '' @ m)]\<rparr>)"
  | (failed2) p m where "setup_stripe_products W s =
      (Inr (), s\<lparr>stdin := rest, trace := trace s @
        [Print (nl # credit_card @ '' Setting up Stripe products...''),
         Ask ''Enter your Stripe Secret Key: '' (Some l),
         SetApiKey (strip l),
         Stripe (ProductCreate ''OptionScope Pro'' ''Advanced options trading analytics for serious traders'') (Inr p),
         Stripe (PriceCreate p 2999 ''usd'' ''month'') (Inl m),
         Print (cross @ '' Error setting up Stripe: '' @ m)]\<rparr>)"
  | (failed3) p pm m where "setup_stripe_products W s =
      (Inr (), s\<lparr>stdin := rest, trace := trace s @
        [Print (nl # credit_card @ '' Setting up Stripe products...''),
         Ask ''Enter your Stripe Secret Key: '' (Some l),
         SetApiKey (strip l),
         Stripe (ProductCreate ''OptionScope Pro'' ''Advanced options trading analytics for serious traders'') (Inr p),
         Stripe (PriceCreate p 2999 ''usd'' ''month'') (Inr pm),
         Stripe (PriceCreate p 29999 ''usd'' ''year'') (Inl m),
         Print (cross @ '' Error setting up Stripe: '' @ m)]\<rparr>)"
  | (failed4) p pm py m where "setup_stripe_products W s =
      (Inr (), s\<lparr>stdin := rest, trace := trace s @
        [Print (nl # credit_card @ '' Setting up Stripe products...''),
         Ask ''Enter your Stripe Secret Key: '' (Some l),
         SetApiKey (strip l),
         Stripe (ProductCreate ''OptionScope Pro'' ''Advanced options trading analytics for serious traders'') (Inr p),
         Stripe (PriceCreate p 2999 ''usd'' ''month'') (Inr pm),
         Stripe (PriceCreate p 29999 ''usd'' ''year'') (Inr py),
         Stripe (ProductCreate ''OptionScope Enterprise'' ''Full-featured solution for institutions'') (Inl m),
         Print (cross @ '' Error setting up Stripe: '' @ m)]\<rparr>)"
  | (failed5) p pm py e m where "setup_stripe_products W s =
      (Inr (), s\<lparr>stdin := rest, trace := trace s @
        [Print (nl # credit_card @ '' Setting up Stripe products...''),
         Ask ''Enter your Stripe Secret Key: '' (Some l),
         SetApiKey (strip l),
         Stripe (ProductCreate ''OptionScope Pro'' ''Advanced options trading analytics for serious traders'') (Inr p),
         Stripe (PriceCreate p 2999 ''usd'' ''month'') (Inr pm),
         Stripe (PriceCreate p 29999 ''usd'' ''year'') (Inr py),
         Stripe (ProductCreate ''OptionScope Enterprise'' ''Full-featured solution for institutions'') (Inr e),
         Stripe (PriceCreate e 9999 ''usd'' ''month'') (Inl m),
         Print (cross @ '' Error setting up Stripe: '' @ m)]\<rparr>)"
  | (failed6) p pm py e em m where "setup_stripe_products W s =
      (Inr (), s\<lparr>stdin := rest, trace := trace s @
        [Print (nl # credit_card @ '' Setting up Stripe products...''),
         Ask ''Enter your Stripe Secret Key: '' (Some l),
         SetApiKey (strip l),
         Stripe (ProductCreate ''OptionScope Pro'' ''Advanced options trading analytics for serious traders'') (Inr p),
         Stripe (PriceCreate p 2999 ''usd'' ''month'') (Inr pm),
         Stripe (PriceCreate p 29999 ''usd'' ''year'') (Inr py),
         Stripe (ProductCreate ''OptionScope Enterprise'' ''Full-featured solution for institutions'') (Inr e),
         Stripe (PriceCreate e 9999 ''usd'' ''month'') (Inr em),
         Stripe (PriceCreate e 99999 ''usd'' ''year'') (Inl m),
         Print (cross @ '' Error setting up Stripe: '' @ m)]\<rparr>)"
  | (created) p pm py e em ey where "setup_stripe_products W s =
      (Inr (), s\<lparr>stdin := rest, trace := trace s @
        [Print (nl # credit_card @ '' Setting up Stripe products...''),
         Ask ''Enter your Stripe Secret Key: '' (Some l),
         SetApiKey (strip l),
         Stripe (ProductCreate ''OptionScope Pro'' ''Advanced options trading analytics for serious traders'') (Inr p),
         Stripe (PriceCreate p 2999 ''usd'' ''month'') (Inr pm),
         Stripe (PriceCreate p 29999 ''usd'' ''year'') (Inr py),
         Stripe (ProductCreate ''OptionScope Enterprise'' ''Full-featured solution for institutions'') (Inr e),
         Stripe (PriceCreate e 9999 ''usd'' ''month'') (Inr em),
         Stripe (PriceCreate e 99999 ''usd'' ''year'') (Inr ey),
         Print (check_mark @ '' Stripe products created successfully!''),
         Print (memo @ '' Add these to your environment variables:''),
         Print (''STRIPE_PRO_MONTHLY='' @ pm),
         Print (''STRIPE_PRO_YEARLY='' @ py),
         Print (''STRIPE_ENTERPRISE_MONTHLY='' @ em),
         Print (''STRIPE_ENTERPRISE_YEARLY='' @ ey)]\<rparr>)"
proof -
  note defs = setup_stripe_products_def create_products_def stripe_create_bind exec Let_def
    exn_text_def assms
  show thesis
  proof (cases "stripe_api W (trace s @
      [Print (nl # credit_card @ '' Setting up Stripe products...''),
       Ask ''Enter your Stripe Secret Key: '' (Some l),
       SetApiKey (strip l)])
      (ProductCreate ''OptionScope Pro'' ''Advanced options trading analytics for serious traders'')")
    case (Inl m)
    then show thesis
      by (intro failed1[of m]) (simp add: defs )
  next
    case r1: (Inr p)
    show thesis
    proof (cases "stripe_api W (trace s @
      [Print (nl # credit_card @ '' Setting up Stripe products...''),
       Ask ''Enter your Stripe Secret Key: '' (Some l),
       SetApiKey (strip l),
       Stripe (ProductCreate ''OptionScope Pro'' ''Advanced options trading analytics for serious traders'') (Inr p)])
        (PriceCreate p 2999 ''usd'' ''month'')")
      case (Inl m)
      then show thesis
        using r1
        by (intro failed2[of p m]) (simp add: defs)
    next
      case r2: (Inr pm)
      show thesis
      proof (cases "stripe_api W (trace s @
      [Print (nl # credit_card @ '' Setting up Stripe products...''),
       Ask ''Enter your Stripe Secret Key: '' (Some l),
       SetApiKey (strip l),
       Stripe (ProductCreate ''OptionScope Pro'' ''Advanced options trading analytics for serious traders'') (Inr p),
       Stripe (PriceCreate p 2999 ''usd'' ''month'') (Inr pm)])
          (PriceCreate p 29999 ''usd'' ''year'')")
        case (Inl m)
        then show thesis
          using r1 r2
          by (intro failed3[of p pm m]) (simp add: defs)
      next
        case r3: (Inr py)
        show thesis
        proof (cases "stripe_api W (trace s @
      [Print (nl # credit_card @ '' Setting up Stripe products...''),
       Ask ''Enter your Stripe Secret Key: '' (Some l),
       SetApiKey (strip l),
       Stripe (ProductCreate ''OptionScope Pro'' ''Advanced options trading analytics for serious traders'') (Inr p),
       Stripe (PriceCreate p 2999 ''usd'' ''month'') (Inr pm),
       Stripe (PriceCreate p 29999 ''usd'' ''year'') (Inr py)])
            (ProductCreate ''OptionScope Enterprise'' ''Full-featured solution for institutions'')")
          case (Inl m)
          then show thesis
            using r1 r2 r3
            by (intro failed4[of p pm py m]) (simp add: defs)
        next
          case r4: (Inr e)
          show thesis
          proof (cases "stripe_api W (trace s @
      [Print (nl # credit_card @ '' Setting up Stripe products...''),
       Ask ''Enter your Stripe Secret Key: '' (Some l),
       SetApiKey (strip l),
       Stripe (ProductCreate ''OptionScope Pro'' ''Advanced options trading analytics for serious traders'') (Inr p),
       Stripe (PriceCreate p 2999 ''usd'' ''month'') (Inr pm),
       Stripe (PriceCreate p 29999 ''usd'' ''year'') (Inr py),
       Stripe (ProductCreate ''OptionScope Enterprise'' ''Full-featured solution for institutions'') (Inr e)])
              (PriceCreate e 9999 ''usd'' ''month'')")
            case (Inl m)
            then show thesis
              using r1 r2 r3 r4
              by (intro failed5[of p pm py e m]) (simp add: defs)
          next
            case r5: (Inr em)
            show thesis
            proof (cases "stripe_api W (trace s @
      [Print (nl # credit_card @ '' Setting up Stripe products...''),
       Ask ''Enter your Stripe Secret Key: '' (Some l),
       SetApiKey (strip l),
       Stripe (ProductCreate ''OptionScope Pro'' ''Advanced options trading analytics for serious traders'') (Inr p),
       Stripe (PriceCreate p 2999 ''usd'' ''month'') (Inr pm),
       Stripe (PriceCreate p 29999 ''usd'' ''year'') (Inr py),
       Stripe (ProductCreate ''OptionScope Enterprise'' ''Full-featured solution for institutions'') (Inr e),
       Stripe (PriceCreate e 9999 ''usd'' ''month'') (Inr em)])
                (PriceCreate e 99999 ''usd'' ''year'')")
              case (Inl m)
              then show thesis
                using r1 r2 r3 r4 r5
                by (intro failed6[of p pm py e em m]) (simp add: defs)
            next
              case r6: (Inr ey)
              show thesis
                using r1 r2 r3 r4 r5 r6
                by (intro created[of p pm py e em ey]) (simp add: defs)
            qed
          qed
        qed
      qed
    qed
  qed
qed


section \<open>The program around the routines\<close>

lemma setup_stripe_products_frame: "emits frame_event (setup_stripe_products W)"
  unfolding setup_stripe_products_def create_products_def Let_def
  by (intro emits_intros; simp add: frame_event_def announces_def banners_def)


lemma report_frame: "emits frame_event (report url)"
  unfolding report_def
  by (intro emits_intros; simp add: frame_event_def announces_def banners_def rule_line)

lemma header_frame:
  "emits frame_event (print (rocket @ '' OptionScope Deployment to '' @ title platform))"
  "emits frame_event (print (replicate 50 CHR ''=''))"
  "emits frame_event (print (cross @ '' Unsupported platform: '' @ platform))"
  by (intro emits_intros; simp add: frame_event_def announces_def banners_def rule_line)+


lemma offer_frame:
  "emits frame_event (if lower (strip l) = ''y'' then setup_stripe_products W else ret ())"
  by (intro emits_intros setup_stripe_products_frame)

lemma closing_frame: "emits frame_event (if truthy url then report (format_opt url) else ret ())"
  by (intro emits_intros report_frame)

lemma platforms_cases:
  assumes "map_of platforms name = Some f"
  obtains "name = ''vercel''" and "f = deploy_vercel"
    | "name = ''heroku''" and "f = deploy_heroku"
    | "name = ''railway''" and "f = deploy_railway"
    | "name = ''render''" and "f = deploy_render"
  using assms by (auto simp: platforms_def split: if_splits)

subsection \<open>Which routine starts\<close>

lemma routines_started_append:
  "routines_started (xs @ ys) = routines_started xs @ routines_started ys"
  by (simp add: routines_started_def List.map_filter_def)

lemma routines_started_frame: "list_all frame_event evs \<Longrightarrow> routines_started evs = []"
  by (induction evs)
    (auto simp: routines_started_def frame_event_def announces_def
      split: event.splits)

lemma routines_started_none:
  "list_all (\<lambda>e. announces e = None) evs \<Longrightarrow> routines_started evs = []"
  by (induction evs) (auto simp: routines_started_def)

lemma started_after_banner:
  assumes "emits (\<lambda>e. announces e = None) rest"
  shows "routines_started (new_events s (snd (andthen (print b) rest s)))
          = (case announces (Print b) of None \<Rightarrow> [] | Some n \<Rightarrow> [n])"
proof -
  let ?s1 = "s\<lparr>trace := trace s @ [Print b]\<rparr>"
  obtain r s2 where run: "rest ?s1 = (r, s2)" by (cases "rest ?s1")
  from assms run obtain evs where "trace s2 = trace ?s1 @ evs"
    and none: "list_all (\<lambda>e. announces e = None) evs" by (rule emitsD)
  then have "new_events s s2 = Print b # evs" by (simp add: new_events_def)
  moreover have "andthen (print b) rest s = rest ?s1"
    by (simp add: andthen_def bind_def print_def emit_def)
  ultimately show ?thesis
    using run routines_started_none[OF none]
    by (simp add: routines_started_def split: option.splits)
qed

lemma vercel_rest_silent:
  "emits (\<lambda>e. announces e = None) (andthen (vercel_prepare W) (vercel_release W))"
  unfolding vercel_prepare_def vercel_release_def get_production_env_vars_def Let_def
  by (intro emits_intros; simp add: announces_def banners_def)

lemma heroku_rest_silent:
  "emits (\<lambda>e. announces e = None)
     (bind (except_cli (andthen (run_checked W [''heroku'', ''--version''] None) (ret True))
             (andthen (print (cross @ '' Heroku CLI not found. Please install it first.''))
                      (ret False))) (\<lambda>found.
       if \<not> found then ret None
       else andthen (heroku_prepare W) (heroku_release W)))"
  unfolding heroku_prepare_def heroku_release_def get_production_env_vars_def Let_def
  by (intro emits_intros; simp add: announces_def banners_def)

lemma railway_rest_silent:
  "emits (\<lambda>e. announces e = None) (andthen (railway_prepare W) (railway_release W))"
  unfolding railway_prepare_def railway_release_def get_production_env_vars_def Let_def
  by (intro emits_intros; simp add: announces_def banners_def)

lemma render_rest_silent:
  "emits (\<lambda>e. announces e = None)
    (andthen (emit (WriteFile ''render.yaml'' (dumps render_config)))
    (andthen (print (check_mark @ '' render.yaml created!''))
    (andthen (print (globe @ '' Connect your GitHub repo to Render dashboard to deploy''))
             (ret (Some ''Manual setup required'')))))"
  by (intro emits_intros; simp add: announces_def banners_def)

lemma vercel_started:
  "routines_started (new_events s (snd (deploy_vercel W s))) = [''vercel'']"
  unfolding deploy_vercel_def
  by (subst started_after_banner[OF vercel_rest_silent]) (simp add: announces_def banners_def)

lemma heroku_started:
  "routines_started (new_events s (snd (deploy_heroku W s))) = [''heroku'']"
  unfolding deploy_heroku_def
  by (subst started_after_banner[OF heroku_rest_silent]) (simp add: announces_def banners_def)

lemma railway_started:
  "routines_started (new_events s (snd (deploy_railway W s))) = [''railway'']"
  unfolding deploy_railway_def
  by (subst started_after_banner[OF railway_rest_silent]) (simp add: announces_def banners_def)

lemma render_started:
  "routines_started (new_events s (snd (deploy_render W s))) = [''render'']"
  unfolding deploy_render_def
  by (subst started_after_banner[OF render_rest_silent]) (simp add: announces_def banners_def)

lemmas routine_started = vercel_started heroku_started railway_started render_started

lemma routine_events:
  "emits (\<lambda>e. True) (deploy_vercel W)" "emits (\<lambda>e. True) (deploy_heroku W)"
  "emits (\<lambda>e. True) (deploy_railway W)" "emits (\<lambda>e. True) (deploy_render W)"
  unfolding deploy_vercel_def deploy_heroku_def deploy_railway_def deploy_render_def
  by (intro emits_andthen emits_print emits_any[OF vercel_rest_silent]
      emits_any[OF heroku_rest_silent] emits_any[OF railway_rest_silent]
      emits_any[OF render_rest_silent]; simp)+

lemma platform_routine:
  assumes "map_of platforms name = Some f"
  shows "routines_started (new_events s (snd (f W s))) = [name]" and "emits (\<lambda>e. True) (f W)"
  using assms by (auto elim!: platforms_cases simp: routine_started routine_events)

text \<open>A property of the result and the routines started carries over a frame part in front.\<close>

lemma started_after_frame:
  assumes m: "emits frame_event m" and f: "\<And>x. emits (\<lambda>e. True) (f x)"
    and tail: "\<And>x s1. Q (fst (f x s1)) (routines_started (new_events s1 (snd (f x s1))))"
    and raised: "\<And>e. Q (Inl e) []"
  shows "Q (fst (bind m f s)) (routines_started (new_events s (snd (bind m f s))))"
proof (rule bind_run_cases[where f = f and s = s, OF m f], goal_cases raised passed)
  case (raised e)
  then show ?case using assms(4) by (simp add: routines_started_frame)
next
  case (passed x s1)
  then show ?case using tail[of x s1]
    by (simp add: routines_started_append routines_started_frame)
qed

lemma deploy_with_started:
  assumes "map_of platforms name = Some f"
  shows "(routines_started (new_events s (snd (deploy_with W f s))) = []
          \<or> routines_started (new_events s (snd (deploy_with W f s))) = [name])
       \<and> (fst (deploy_with W f s) = Inr () \<longrightarrow>
            routines_started (new_events s (snd (deploy_with W f s))) = [name])"
proof -
  let ?Q = "\<lambda>r rs. (rs = [] \<or> rs = [name]) \<and> (r = Inr () \<longrightarrow> rs = [name])"
  let ?k = "\<lambda>url. if truthy url then report (format_opt url) else ret ()"
  have routine: "?Q (fst (bind (f W) ?k s1))
                   (routines_started (new_events s1 (snd (bind (f W) ?k s1))))" for s1
  proof (rule bind_run_cases[where m = "f W" and f = ?k and s = s1,
        OF platform_routine(2)[OF assms] closing_frame],
      goal_cases raised passed)
    case (raised e)
    then show ?case using platform_routine(1)[OF assms, of s1 W] by simp
  next
    case (passed x s2)
    then show ?case using platform_routine(1)[OF assms, of s1 W]
      by (simp add: routines_started_append routines_started_frame)
  qed
  have routine_events: "emits (\<lambda>e. True) (bind (f W) ?k)"
    by (intro emits_bind platform_routine(2)[OF assms] emits_any[OF closing_frame])
  have offer: "?Q (fst (andthen (if lower (strip l) = ''y'' then setup_stripe_products W else ret ())
                          (bind (f W) ?k) s1))
                  (routines_started (new_events s1
                     (snd (andthen (if lower (strip l) = ''y'' then setup_stripe_products W else ret ())
                          (bind (f W) ?k) s1))))" for l s1
    unfolding andthen_def
    by (rule started_after_frame[where Q = ?Q, OF offer_frame routine_events routine]) simp
  have offer_events: "emits (\<lambda>e. True)
      (andthen (if lower (strip l) = ''y'' then setup_stripe_products W else ret ())
               (bind (f W) ?k))" for l
    by (intro emits_andthen emits_any[OF offer_frame] routine_events)
  have ask: "emits frame_event (input ''Set up Stripe products? (y/N): '')"
    by (intro emits_intros; simp add: frame_event_def)
  show ?thesis
    unfolding deploy_with_def Let_def
    by (rule started_after_frame[where Q = ?Q, OF ask offer_events offer]) simp
qed

lemma deploy_started:
  assumes "map_of platforms name = Some f"
  shows "(routines_started (new_events s (snd (deploy W name s))) = []
          \<or> routines_started (new_events s (snd (deploy W name s))) = [name])
       \<and> (fst (deploy W name s) = Inr () \<longrightarrow>
            routines_started (new_events s (snd (deploy W name s))) = [name])"
proof -
  let ?Q = "\<lambda>r rs. (rs = [] \<or> rs = [name]) \<and> (r = Inr () \<longrightarrow> rs = [name])"
  have with_events: "emits (\<lambda>e. True) (deploy_with W f)"
    unfolding deploy_with_def Let_def
    by (intro emits_bind emits_andthen emits_input emits_any[OF offer_frame]
        emits_any[OF closing_frame] platform_routine(2)[OF assms]) simp
  have inner: "?Q (fst (andthen (print (replicate 50 CHR ''='')) (deploy_with W f) s1))
                  (routines_started (new_events s1
                     (snd (andthen (print (replicate 50 CHR ''='')) (deploy_with W f) s1))))" for s1
    unfolding andthen_def
    by (rule started_after_frame[where Q = ?Q, OF header_frame(2)])
      (use with_events deploy_with_started[OF assms] in simp_all)
  have inner_events: "emits (\<lambda>e. True) (andthen (print (replicate 50 CHR ''='')) (deploy_with W f))"
    by (intro emits_andthen emits_any[OF header_frame(2)] with_events)
  have "?Q (fst (andthen (print (rocket @ '' OptionScope Deployment to '' @ title name))
                  (andthen (print (replicate 50 CHR ''='')) (deploy_with W f)) s))
           (routines_started (new_events s
              (snd (andthen (print (rocket @ '' OptionScope Deployment to '' @ title name))
                  (andthen (print (replicate 50 CHR ''='')) (deploy_with W f)) s))))"
    unfolding andthen_def[of "print (rocket @ '' OptionScope Deployment to '' @ title name)"]
    by (rule started_after_frame[where Q = ?Q, OF header_frame(1)])
      (use inner_events inner in simp_all)
  then show ?thesis by (simp add: deploy_def assms)
qed


subsection \<open>A failure inside a routine, seen from \<open>main\<close>\<close>







subsection \<open>A missing Heroku tool, a rejected \<open>vercel --prod\<close>\<close>
















section \<open>The claims\<close>


text \<open>
  C1, as the claim states it, fails for \<open>deploy_heroku\<close>: when \<open>git push heroku main\<close> exits
  with status 1 the routine does not return \<open>None\<close>. \<open>CalledProcessError\<close> leaves it, and
  the last thing it did is the command itself, so it printed no failure text.
\<close>

theorem heroku_push_rejected_raises:
  "list_ex (failed_run [''git'', ''push'', ''heroku'', ''main''])
     (new_events (fresh ([] # payment_keys))
        (snd (deploy_heroku rejecting_world (fresh ([] # payment_keys)))))
 \<and> fst (deploy_heroku rejecting_world (fresh ([] # payment_keys)))
     = Inl (CalledProcessError 1 [''git'', ''push'', ''heroku'', ''main''])
 \<and> fst (deploy_heroku rejecting_world (fresh ([] # payment_keys))) \<noteq> Inr None
 \<and> last (trace (snd (deploy_heroku rejecting_world (fresh ([] # payment_keys)))))
     = Run [''git'', ''push'', ''heroku'', ''main''] None (Exited 1 [] ''rejected'')"
  by (simp add: routines exec rejecting_world_def fresh_def payment_keys_def text_ops
      new_events_def failed_run_def)

text \<open>
  C1, amended: when \<open>vercel --prod\<close> exits with a status other than zero, \<open>deploy_vercel\<close>
  prints the failure text (the command's standard error) as its last line and returns
  \<open>None\<close>. When \<open>git push heroku main\<close> in \<open>deploy_heroku\<close>, or \<open>railway up\<close> in
  \<open>deploy_railway\<close>, exits with a status other than zero, the routine ends there with
  \<open>CalledProcessError\<close> for that command. In all three cases no address is printed as live.
\<close>

theorem rejected_deploy_command:
  "(list_ex (failed_run [''vercel'', ''--prod'']) (new_events s (snd (deploy_vercel W s))) \<longrightarrow>
      fst (deploy_vercel W s) = Inr None
    \<and> \<not> list_ex is_live (new_events s (snd (deploy_vercel W s)))
    \<and> (\<exists>front rc so se. rc \<noteq> 0 \<and> new_events s (snd (deploy_vercel W s)) =
          front @ [Run [''vercel'', ''--prod''] None (Exited rc so se),
                   Print (cross @ '' Deployment failed: '' @ se)]))
 \<and> (list_ex (failed_run [''git'', ''push'', ''heroku'', ''main''])
       (new_events s (snd (deploy_heroku W s))) \<longrightarrow>
      (\<exists>rc. rc \<noteq> 0 \<and> fst (deploy_heroku W s)
             = Inl (CalledProcessError rc [''git'', ''push'', ''heroku'', ''main'']))
    \<and> \<not> list_ex is_live (new_events s (snd (deploy_heroku W s)))
    \<and> (\<exists>front rc so se. rc \<noteq> 0 \<and> new_events s (snd (deploy_heroku W s)) =
          front @ [Run [''git'', ''push'', ''heroku'', ''main''] None (Exited rc so se)]))
 \<and> (list_ex (failed_run [''railway'', ''up'']) (new_events s (snd (deploy_railway W s))) \<longrightarrow>
      (\<exists>rc. rc \<noteq> 0 \<and> fst (deploy_railway W s)
             = Inl (CalledProcessError rc [''railway'', ''up'']))
    \<and> \<not> list_ex is_live (new_events s (snd (deploy_railway W s)))
    \<and> (\<exists>front rc so se. rc \<noteq> 0 \<and> new_events s (snd (deploy_railway W s)) =
          front @ [Run [''railway'', ''up''] None (Exited rc so se)]))"
  by (rule deploy_vercel_rejected deploy_heroku_rejected deploy_railway_rejected impI conjI
      | assumption)+

theorem rejected_deploy_command_witness:
  "list_ex (failed_run [''vercel'', ''--prod''])
     (new_events (fresh payment_keys) (snd (deploy_vercel rejecting_world (fresh payment_keys))))
 \<and> fst (deploy_vercel rejecting_world (fresh payment_keys)) = Inr None
 \<and> \<not> list_ex is_live
       (new_events (fresh payment_keys) (snd (deploy_vercel rejecting_world (fresh payment_keys))))
 \<and> list_ex (failed_run [''railway'', ''up''])
     (new_events (fresh payment_keys) (snd (deploy_railway rejecting_world (fresh payment_keys))))
 \<and> \<not> list_ex is_live
       (new_events (fresh payment_keys) (snd (deploy_railway rejecting_world (fresh payment_keys))))
 \<and> list_ex (failed_run [''git'', ''push'', ''heroku'', ''main''])
     (new_events (fresh ([] # payment_keys))
        (snd (deploy_heroku rejecting_world (fresh ([] # payment_keys)))))
 \<and> \<not> list_ex is_live
     (new_events (fresh ([] # payment_keys))
        (snd (deploy_heroku rejecting_world (fresh ([] # payment_keys)))))"
proof -
  have v: "list_ex (failed_run [''vercel'', ''--prod''])
     (new_events (fresh payment_keys) (snd (deploy_vercel rejecting_world (fresh payment_keys))))"
    by (simp add: routines exec rejecting_world_def fresh_def payment_keys_def text_ops
        new_events_def failed_run_def)
  have r: "list_ex (failed_run [''railway'', ''up''])
     (new_events (fresh payment_keys) (snd (deploy_railway rejecting_world (fresh payment_keys))))"
    by (simp add: routines exec rejecting_world_def fresh_def payment_keys_def text_ops
        new_events_def failed_run_def)
  have h: "list_ex (failed_run [''git'', ''push'', ''heroku'', ''main''])
     (new_events (fresh ([] # payment_keys))
        (snd (deploy_heroku rejecting_world (fresh ([] # payment_keys)))))"
    by (simp add: routines exec rejecting_world_def fresh_def payment_keys_def text_ops
        new_events_def failed_run_def)
  from v r h rejected_deploy_command[of "fresh payment_keys" rejecting_world]
    rejected_deploy_command[of "fresh ([] # payment_keys)" rejecting_world]
  show ?thesis by blast
qed


text \<open>
  C2, as the claim states it, fails: an operator who types the placeholder at the
  publishable-key prompt gets it back in the mapping of \<open>get_production_env_vars\<close>.
\<close>

theorem placeholder_kept_in_env_vars:
  "fst (get_production_env_vars rejecting_world placeholder_typed) =
     Inr [(''FLASK_ENV'', ''production''), (''SECRET_KEY'', ''Zm9vYmFy''),
          (''STRIPE_PUBLISHABLE_KEY'', ''your-key-here''), (''STRIPE_SECRET_KEY'', ''sk_live_1''),
          (''STRIPE_WEBHOOK_SECRET'', ''whsec_1''), (''ALPHA_VANTAGE_API_KEY'', ''av_1'')]
 \<and> map_of (projr (fst (get_production_env_vars rejecting_world placeholder_typed)))
      ''STRIPE_PUBLISHABLE_KEY'' = Some ''your-key-here''"
  by (simp add: get_production_env_vars_def exec Let_def dict_update_def
      placeholder_typed_def fresh_def rejecting_world_def text_ops)

text \<open>
  C2, amended: in the mapping of \<open>get_production_env_vars\<close>, a market-data key whose
  answer is blank after stripping is absent. The mapping is not filtered for the
  placeholder; the loops that push the mapping to a platform are. Every command such a
  loop runs sets a variable of the mapping whose value is neither empty nor
  \<open>your-key-here\<close>, whether the command is \<open>vercel env add\<close>, \<open>heroku config:set\<close> or
  \<open>railway variables set\<close>.
\<close>

theorem blank_and_placeholder_secrets:
  "(get_production_env_vars W s = (Inr env_vars, s') \<and> stdin s = a # b # c # d # e # rest \<longrightarrow>
      (strip d = [] \<longrightarrow> map_of env_vars ''ALPHA_VANTAGE_API_KEY'' = None)
    \<and> (strip e = [] \<longrightarrow> map_of env_vars ''IEX_API_KEY'' = None))
 \<and> (\<forall>ev \<in> set (new_events s (snd (push_env W vercel_env_add kvs s))).
      \<exists>k v out. (k, v) \<in> set kvs \<and> v \<noteq> [] \<and> v \<noteq> ''your-key-here''
        \<and> ev = Run [''vercel'', ''env'', ''add'', k] (Some v) out)
 \<and> (\<forall>ev \<in> set (new_events s (snd (push_env W heroku_config_set kvs s))).
      \<exists>k v out. (k, v) \<in> set kvs \<and> v \<noteq> [] \<and> v \<noteq> ''your-key-here''
        \<and> ev = Run [''heroku'', ''config:set'', k @ ''='' @ v] None out)
 \<and> (\<forall>ev \<in> set (new_events s (snd (push_env W railway_variables_set kvs s))).
      \<exists>k v out. (k, v) \<in> set kvs \<and> v \<noteq> [] \<and> v \<noteq> ''your-key-here''
        \<and> ev = Run [''railway'', ''variables'', ''set'', k @ ''='' @ v] None out)"
proof (intro conjI impI ballI)
  assume run: "get_production_env_vars W s = (Inr env_vars, s') \<and> stdin s = a # b # c # d # e # rest"
  then obtain tok where ev: "env_vars =
      [(''FLASK_ENV'', ''production''),
       (''SECRET_KEY'', tok),
       (''STRIPE_PUBLISHABLE_KEY'', strip a),
       (''STRIPE_SECRET_KEY'', strip b),
       (''STRIPE_WEBHOOK_SECRET'', strip c)]
      @ (if strip d \<noteq> [] then [(''ALPHA_VANTAGE_API_KEY'', strip d)] else [])
      @ (if strip e \<noteq> [] then [(''IEX_API_KEY'', strip e)] else [])"
    using get_production_env_vars_run[of s a b c d e rest W] by auto
  { assume "strip d = []"
    then show "map_of env_vars ''ALPHA_VANTAGE_API_KEY'' = None" unfolding ev by simp }
  { assume "strip e = []"
    then show "map_of env_vars ''IEX_API_KEY'' = None" unfolding ev by simp }
next
  fix ev assume "ev \<in> set (new_events s (snd (push_env W vercel_env_add kvs s)))"
  from push_env_events[OF this]
  show "\<exists>k v out. (k, v) \<in> set kvs \<and> v \<noteq> [] \<and> v \<noteq> ''your-key-here''
        \<and> ev = Run [''vercel'', ''env'', ''add'', k] (Some v) out"
    by (simp add: vercel_env_add_def)
next
  fix ev assume "ev \<in> set (new_events s (snd (push_env W heroku_config_set kvs s)))"
  from push_env_events[OF this]
  show "\<exists>k v out. (k, v) \<in> set kvs \<and> v \<noteq> [] \<and> v \<noteq> ''your-key-here''
        \<and> ev = Run [''heroku'', ''config:set'', k @ ''='' @ v] None out"
    by (simp add: heroku_config_set_def)
next
  fix ev assume "ev \<in> set (new_events s (snd (push_env W railway_variables_set kvs s)))"
  from push_env_events[OF this]
  show "\<exists>k v out. (k, v) \<in> set kvs \<and> v \<noteq> [] \<and> v \<noteq> ''your-key-here''
        \<and> ev = Run [''railway'', ''variables'', ''set'', k @ ''='' @ v] None out"
    by (simp add: railway_variables_set_def)
qed


theorem blank_and_placeholder_secrets_witness:
  "get_production_env_vars rejecting_world placeholder_typed =
     (Inr [(''FLASK_ENV'', ''production''), (''SECRET_KEY'', ''Zm9vYmFy''),
           (''STRIPE_PUBLISHABLE_KEY'', ''your-key-here''), (''STRIPE_SECRET_KEY'', ''sk_live_1''),
           (''STRIPE_WEBHOOK_SECRET'', ''whsec_1''), (''ALPHA_VANTAGE_API_KEY'', ''av_1'')],
      snd (get_production_env_vars rejecting_world placeholder_typed))
 \<and> strip [] = []
 \<and> map_of [(''FLASK_ENV'', ''production''), (''SECRET_KEY'', ''Zm9vYmFy''),
           (''STRIPE_PUBLISHABLE_KEY'', ''your-key-here''), (''STRIPE_SECRET_KEY'', ''sk_live_1''),
           (''STRIPE_WEBHOOK_SECRET'', ''whsec_1''), (''ALPHA_VANTAGE_API_KEY'', ''av_1'')]
       ''IEX_API_KEY'' = None
 \<and> new_events (fresh [])
       (snd (push_env rejecting_world vercel_env_add
          [(''STRIPE_PUBLISHABLE_KEY'', ''your-key-here''), (''STRIPE_SECRET_KEY'', ''sk_live_1'')]
          (fresh [])))
     = [Run [''vercel'', ''env'', ''add'', ''STRIPE_SECRET_KEY''] (Some ''sk_live_1'') (Exited 0 [] [])]
 \<and> (\<exists>k v out. (k, v) \<in> set [(''STRIPE_PUBLISHABLE_KEY'', ''your-key-here''),
                                  (''STRIPE_SECRET_KEY'', ''sk_live_1'')]
       \<and> v \<noteq> [] \<and> v \<noteq> ''your-key-here''
       \<and> Run [''vercel'', ''env'', ''add'', ''STRIPE_SECRET_KEY''] (Some ''sk_live_1'') (Exited 0 [] [])
           = Run [''vercel'', ''env'', ''add'', k] (Some v) out)"
proof -
  let ?kvs = "[(''FLASK_ENV'', ''production''), (''SECRET_KEY'', ''Zm9vYmFy''),
           (''STRIPE_PUBLISHABLE_KEY'', ''your-key-here''), (''STRIPE_SECRET_KEY'', ''sk_live_1''),
           (''STRIPE_WEBHOOK_SECRET'', ''whsec_1''), (''ALPHA_VANTAGE_API_KEY'', ''av_1'')]"
  let ?pushed = "[(''STRIPE_PUBLISHABLE_KEY'', ''your-key-here''), (''STRIPE_SECRET_KEY'', ''sk_live_1'')]"
  have run: "get_production_env_vars rejecting_world placeholder_typed =
     (Inr ?kvs, snd (get_production_env_vars rejecting_world placeholder_typed))"
    by (simp add: get_production_env_vars_def exec Let_def dict_update_def
        placeholder_typed_def fresh_def rejecting_world_def text_ops)
  have inp: "stdin placeholder_typed = ''your-key-here'' # ''sk_live_1'' # ''whsec_1'' # ''av_1'' # [] # []"
    by (simp add: placeholder_typed_def fresh_def)
  have blank: "strip [] = []" by (simp add: text_ops)
  have evs: "new_events (fresh []) (snd (push_env rejecting_world vercel_env_add ?pushed (fresh [])))
     = [Run [''vercel'', ''env'', ''add'', ''STRIPE_SECRET_KEY''] (Some ''sk_live_1'') (Exited 0 [] [])]"
    by (simp add: exec rejecting_world_def fresh_def new_events_def vercel_env_add_def
        pushable_def)
  from blank_and_placeholder_secrets
    [of rejecting_world placeholder_typed ?kvs
        "snd (get_production_env_vars rejecting_world placeholder_typed)"
        "''your-key-here''" "''sk_live_1''" "''whsec_1''" "''av_1''" "[]" "[]"]
    run inp blank
  have absent: "map_of ?kvs ''IEX_API_KEY'' = None" by blast
  from blank_and_placeholder_secrets
    [where W = rejecting_world and s = "fresh []" and kvs = ?pushed] evs
  have "\<exists>k v out. (k, v) \<in> set ?pushed \<and> v \<noteq> [] \<and> v \<noteq> ''your-key-here''
       \<and> Run [''vercel'', ''env'', ''add'', ''STRIPE_SECRET_KEY''] (Some ''sk_live_1'') (Exited 0 [] [])
           = Run [''vercel'', ''env'', ''add'', k] (Some v) out"
    by (metis list.set_intros(1))
  with run blank absent evs show ?thesis by blast
qed





text \<open>
  C4: for a platform name that is not one of the four keys of the table, \<open>deploy\<close> prints
  its header, the line that the platform is unsupported and the line listing \<open>vercel\<close>,
  \<open>heroku\<close>, \<open>railway\<close> and \<open>render\<close>, and returns. Nothing else happens: no line is read,
  no command is run, and no deploy routine announces itself.
\<close>

theorem unsupported_platform_reported:
  assumes "platform \<notin> fst ` set platforms"
  shows "deploy W platform s =
           (Inr (), s\<lparr>trace := trace s @
              [Print (rocket @ '' OptionScope Deployment to '' @ title platform),
               Print (replicate 50 CHR ''=''),
               Print (cross @ '' Unsupported platform: '' @ platform),
               Print ''Supported platforms: vercel, heroku, railway, render'']\<rparr>)
       \<and> routines_started (new_events s (snd (deploy W platform s))) = []
       \<and> map fst platforms = [''vercel'', ''heroku'', ''railway'', ''render'']
       \<and> list_all (\<lambda>name. contains name ''Supported platforms: vercel, heroku, railway, render'')
            (map fst platforms)"
proof -
  from assms have none: "map_of platforms platform = None"
    by (simp add: map_of_eq_None_iff)
  have run: "deploy W platform s =
           (Inr (), s\<lparr>trace := trace s @
              [Print (rocket @ '' OptionScope Deployment to '' @ title platform),
               Print (replicate 50 CHR ''=''),
               Print (cross @ '' Unsupported platform: '' @ platform),
               Print ''Supported platforms: vercel, heroku, railway, render'']\<rparr>)"
    unfolding deploy_def none by (simp add: exec platforms_def)
  have "routines_started (new_events s (snd (deploy W platform s))) = []"
    unfolding run
    by (simp add: new_events_def routines_started_def announces_def banners_def rule_line)
  moreover have "map fst platforms = [''vercel'', ''heroku'', ''railway'', ''render'']"
    by (simp add: platforms_def)
  moreover have "list_all (\<lambda>name. contains name
      ''Supported platforms: vercel, heroku, railway, render'') (map fst platforms)"
    by (simp add: platforms_def)
  ultimately show ?thesis using run by simp
qed

theorem unsupported_platform_reported_witness:
  "''netlify'' \<notin> fst ` set platforms
 \<and> deploy bare_world ''netlify'' (fresh [''y'']) =
      (Inr (), \<lparr>stdin = [''y''], trace =
          [Print (rocket @ '' OptionScope Deployment to Netlify''),
           Print (replicate 50 CHR ''=''),
           Print (cross @ '' Unsupported platform: netlify''),
           Print ''Supported platforms: vercel, heroku, railway, render'']\<rparr>)"
proof -
  have no: "''netlify'' \<notin> fst ` set platforms" by (simp add: platforms_def)
  have t: "title ''netlify'' = ''Netlify''" by (simp add: text_ops)
  from unsupported_platform_reported[OF no, of bare_world "fresh [''y'']"] no t
  show ?thesis by (simp add: fresh_def)
qed


text \<open>
  C5: the table sends each of \<open>vercel\<close>, \<open>heroku\<close>, \<open>railway\<close> and \<open>render\<close> to its own
  routine, and for each of these names \<open>deploy\<close> is its header followed by the run of that
  routine (after the offer to set up billing). Every routine announces itself with a first
  line of its own. In a run of \<open>deploy\<close> for one of the four names no routine other than
  the one of that name announces itself, that one does so at most once, and exactly once
  when \<open>deploy\<close> returns normally.
\<close>

theorem dispatch_selects_routine:
  "map_of platforms ''vercel'' = Some deploy_vercel
 \<and> map_of platforms ''heroku'' = Some deploy_heroku
 \<and> map_of platforms ''railway'' = Some deploy_railway
 \<and> map_of platforms ''render'' = Some deploy_render
 \<and> (\<forall>(name, routine) \<in> set platforms.
       deploy W name =
         andthen (print (rocket @ '' OptionScope Deployment to '' @ title name))
        (andthen (print (replicate 50 CHR ''='')) (deploy_with W routine))
     \<and> routines_started (new_events s (snd (routine W s))) = [name]
     \<and> (routines_started (new_events s (snd (deploy W name s))) = []
        \<or> routines_started (new_events s (snd (deploy W name s))) = [name])
     \<and> (fst (deploy W name s) = Inr () \<longrightarrow>
          routines_started (new_events s (snd (deploy W name s))) = [name]))"
proof -
  have table: "map_of platforms ''vercel'' = Some deploy_vercel"
    "map_of platforms ''heroku'' = Some deploy_heroku"
    "map_of platforms ''railway'' = Some deploy_railway"
    "map_of platforms ''render'' = Some deploy_render"
    by (simp_all add: platforms_def)
  have each: "deploy W name =
         andthen (print (rocket @ '' OptionScope Deployment to '' @ title name))
        (andthen (print (replicate 50 CHR ''='')) (deploy_with W routine))
     \<and> routines_started (new_events s (snd (routine W s))) = [name]
     \<and> (routines_started (new_events s (snd (deploy W name s))) = []
        \<or> routines_started (new_events s (snd (deploy W name s))) = [name])
     \<and> (fst (deploy W name s) = Inr () \<longrightarrow>
          routines_started (new_events s (snd (deploy W name s))) = [name])"
    if "(name, routine) \<in> set platforms" for name routine
  proof -
    have "distinct (map fst platforms)" by (simp add: platforms_def)
    with that have found: "map_of platforms name = Some routine" by simp
    then have "deploy W name =
         andthen (print (rocket @ '' OptionScope Deployment to '' @ title name))
        (andthen (print (replicate 50 CHR ''='')) (deploy_with W routine))"
      by (simp add: deploy_def)
    with platform_routine(1)[OF found] deploy_started[OF found] show ?thesis by blast
  qed
  from table each show ?thesis by blast
qed

theorem dispatch_selects_routine_witness:
  "(''render'', deploy_render) \<in> set platforms
 \<and> fst (deploy bare_world ''render'' (fresh [''n''])) = Inr ()
 \<and> routines_started (new_events (fresh [''n''])
      (snd (deploy bare_world ''render'' (fresh [''n''])))) = [''render'']
 \<and> routines_started (new_events (fresh [''n''])
      (snd (deploy_render bare_world (fresh [''n''])))) = [''render'']"
proof -
  have a: "(''render'', deploy_render) \<in> set platforms" by (simp add: platforms_def)
  have b: "fst (deploy bare_world ''render'' (fresh [''n''])) = Inr ()"
    by (simp add: deploy_def deploy_with_def platforms_def routines report_def truthy_def
        format_opt_def exec fresh_def text_ops)
  from a b dispatch_selects_routine[of bare_world "fresh [''n'']"]
  show ?thesis by blast
qed


text \<open>
  C6: with a key that is not blank, \<open>setup_stripe_products\<close> sets the key and starts on six
  creations in this order: the Pro product, its monthly and its yearly price, the
  Enterprise product, its monthly and its yearly price, each price for the id the provider
  gave its product. The calls made are an initial part of these six. Every call but the
  last one made succeeded, and fewer than six are made only when the last one raised. An
  exception is caught: its text is printed right after the failing call and nothing
  follows, so no further creation is attempted and nothing created is taken back. The
  routine returns normally in every case.
\<close>

theorem stripe_setup_attempts:
  assumes "stdin s = l # rest" and "strip l \<noteq> []"
  shows "let run = setup_stripe_products W s;
             evs = new_events s (snd run);
             log = stripe_log evs
         in fst run = Inr ()
          \<and> stdin (snd run) = rest
          \<and> take 3 evs =
              [Print (nl # credit_card @ '' Setting up Stripe products...''),
               Ask ''Enter your Stripe Secret Key: '' (Some l),
               SetApiKey (strip l)]
          \<and> 1 \<le> length log \<and> length log \<le> 6
          \<and> (\<exists>pro ent.
                map fst log = take (length log) (attempts pro ent)
              \<and> (1 < length log \<longrightarrow> snd (log ! 0) = Inr pro)
              \<and> (4 < length log \<longrightarrow> snd (log ! 3) = Inr ent))
          \<and> list_all succeeded (butlast log)
          \<and> (length log < 6 \<longrightarrow> \<not> succeeded (last log))
          \<and> (\<forall>msg. snd (last log) = Inl msg \<longrightarrow>
                (\<exists>front. evs = front @ [Stripe (fst (last log)) (Inl msg),
                                        Print (cross @ '' Error setting up Stripe: '' @ msg)]))
          \<and> (succeeded (last log) \<longrightarrow>
                Print (check_mark @ '' Stripe products created successfully!'') \<in> set evs)"
proof (rule setup_stripe_products_cases[OF assms, of W], goal_cases)
  case (1 m)
  then show ?case
    by (simp add: Let_def new_events_def attempts_def succeeded_def)
next
  case (2 p m)
  then show ?case
    by (simp add: Let_def new_events_def attempts_def succeeded_def)
next
  case (3 p pm m)
  then show ?case
    by (simp add: Let_def new_events_def attempts_def succeeded_def)
next
  case (4 p pm py m)
  then show ?case
    by (simp add: Let_def new_events_def attempts_def succeeded_def)
next
  case (5 p pm py e m)
  then show ?case
    by (simp add: Let_def new_events_def attempts_def succeeded_def)
next
  case (6 p pm py e em m)
  then show ?case
    by (simp add: Let_def new_events_def attempts_def succeeded_def)
next
  case (7 p pm py e em ey)
  then show ?case
    by (simp add: Let_def new_events_def attempts_def succeeded_def)
qed

theorem stripe_setup_attempts_witness:
  "strip ''sk_test_1'' \<noteq> []
 \<and> fst (setup_stripe_products bare_world (fresh [''sk_test_1''])) = Inr ()
 \<and> stripe_log (new_events (fresh [''sk_test_1''])
      (snd (setup_stripe_products bare_world (fresh [''sk_test_1'']))))
    = [(attempts ''prod_1'' [] ! 0, Inr ''prod_1''),
       (attempts ''prod_1'' [] ! 1, Inr ''price_1''),
       (attempts ''prod_1'' [] ! 2, Inl ''card network unavailable'')]
 \<and> list_all succeeded (butlast (stripe_log (new_events (fresh [''sk_test_1''])
      (snd (setup_stripe_products bare_world (fresh [''sk_test_1'']))))))"
proof -
  have key: "strip ''sk_test_1'' \<noteq> []" by (simp add: text_ops)
  have inp: "stdin (fresh [''sk_test_1'']) = ''sk_test_1'' # []" by (simp add: fresh_def)
  have log: "stripe_log (new_events (fresh [''sk_test_1''])
      (snd (setup_stripe_products bare_world (fresh [''sk_test_1'']))))
    = [(attempts ''prod_1'' [] ! 0, Inr ''prod_1''),
       (attempts ''prod_1'' [] ! 1, Inr ''price_1''),
       (attempts ''prod_1'' [] ! 2, Inl ''card network unavailable'')]"
    by (simp add: routines exec bare_world_def fresh_def text_ops new_events_def attempts_def)
  from stripe_setup_attempts[OF inp key, of bare_world] key log
  show ?thesis by (simp add: Let_def)
qed


text \<open>
  C7: \<open>deploy_render\<close> writes one file, \<open>render.yaml\<close>, whose text is the configuration
  dumped as JSON. The text is well-formed JSON and reads back as the configuration, and
  the environment entries its one service declares are exactly \<open>FLASK_ENV\<close> and
  \<open>SECRET_KEY\<close>, in this order.
\<close>

theorem render_config_file:
  "deploy_render W s =
     (Inr (Some ''Manual setup required''), s\<lparr>trace := trace s @
        [Print (rocket @ '' Setting up Render deployment...''),
         WriteFile ''render.yaml'' (dumps render_config),
         Print (check_mark @ '' render.yaml created!''),
         Print (globe @ '' Connect your GitHub repo to Render dashboard to deploy'')]\<rparr>)
 \<and> json_parse (dumps render_config) = Some render_config
 \<and> length (items (member ''services'' render_config)) = 1
 \<and> declared_env_keys render_config
     = [Some (JString ''FLASK_ENV''), Some (JString ''SECRET_KEY'')]"
proof -
  have "deploy_render W s =
     (Inr (Some ''Manual setup required''), s\<lparr>trace := trace s @
        [Print (rocket @ '' Setting up Render deployment...''),
         WriteFile ''render.yaml'' (dumps render_config),
         Print (check_mark @ '' render.yaml created!''),
         Print (globe @ '' Connect your GitHub repo to Render dashboard to deploy'')]\<rparr>)"
    by (simp add: deploy_render_def exec)
  moreover have "json_parse (dumps render_config) = Some render_config"
    by code_simp
  moreover have "length (items (member ''services'' render_config)) = 1"
    by (simp add: render_config_def member_def items_def)
  moreover have "declared_env_keys render_config
     = [Some (JString ''FLASK_ENV''), Some (JString ''SECRET_KEY'')]"
    by (simp add: declared_env_keys_def render_config_def member_def items_def)
  ultimately show ?thesis by (intro conjI)
qed

theorem render_config_file_witness:
  "fst (deploy_render bare_world (fresh [])) = Inr (Some ''Manual setup required'')
 \<and> trace (snd (deploy_render bare_world (fresh []))) ! 1
     = WriteFile ''render.yaml'' (dumps render_config)
 \<and> json_parse (dumps render_config) = Some render_config"
  using render_config_file[of bare_world "fresh []"] by (simp add: fresh_def)


text \<open>
  C8: when no command-line argument is given, \<open>main\<close> prints the menu of the four
  platforms and reads a choice. The choice, stripped of surrounding whitespace, selects
  \<open>vercel\<close>, \<open>heroku\<close>, \<open>railway\<close> or \<open>render\<close> for 1, 2, 3 or 4, and \<open>vercel\<close> for anything
  else; \<open>deploy\<close> is then called with that platform.
\<close>

theorem menu_selects_platform:
  assumes "length argv \<le> 1" and "stdin s = l # rest"
  shows "\<exists>platform s'.
           choose_platform argv s = (Inr platform, s')
         \<and> main W argv s = deploy W platform s'
         \<and> stdin s' = rest
         \<and> new_events s s' =
             [Print (rocket @ '' OptionScope Deployment''),
              Print ''Choose deployment platform:'',
              Print ''1. Vercel (Recommended - Free tier)'',
              Print ''2. Heroku (Full-stack)'',
              Print ''3. Railway (Modern)'',
              Print ''4. Render (Simple)'',
              Ask ''Enter choice (1-4): '' (Some l)]
         \<and> (strip l = ''1'' \<longrightarrow> platform = ''vercel'')
         \<and> (strip l = ''2'' \<longrightarrow> platform = ''heroku'')
         \<and> (strip l = ''3'' \<longrightarrow> platform = ''railway'')
         \<and> (strip l = ''4'' \<longrightarrow> platform = ''render'')
         \<and> (strip l \<notin> {''1'', ''2'', ''3'', ''4''} \<longrightarrow> platform = ''vercel'')"
  using assms
  by (simp add: main_def choose_platform_def exec Let_def dict_get_def new_events_def)

theorem menu_selects_platform_witness:
  "fst (choose_platform [''deploy.py''] \<lparr>stdin = ['' 3 '', ''n''], trace = []\<rparr>) = Inr ''railway''
 \<and> fst (choose_platform [''deploy.py''] \<lparr>stdin = [''Heroku'', ''n''], trace = []\<rparr>) = Inr ''vercel''"
proof -
  have a: "strip '' 3 '' = ''3''" and b: "strip ''Heroku'' \<notin> {''1'', ''2'', ''3'', ''4''}"
    by (simp_all add: text_ops)
  from menu_selects_platform
    [of "[''deploy.py'']" "\<lparr>stdin = ['' 3 '', ''n''], trace = []\<rparr>" "'' 3 ''" "[''n'']" bare_world]
    menu_selects_platform
    [of "[''deploy.py'']" "\<lparr>stdin = [''Heroku'', ''n''], trace = []\<rparr>" "''Heroku''" "[''n'']" bare_world]
    a b
  show ?thesis by auto
qed


text \<open>
  C9: every mapping that \<open>get_production_env_vars\<close> returns has \<open>FLASK_ENV\<close> set to
  \<open>production\<close>, \<open>SECRET_KEY\<close> set to a token the generator made during the call, and the
  three Stripe keys set to the stripped answers, blank or not. It has
  \<open>ALPHA_VANTAGE_API_KEY\<close> (and \<open>IEX_API_KEY\<close>) exactly when the stripped answer to that
  prompt is not blank, and no key twice. A mapping is returned whenever standard input has
  the five answers.
\<close>

theorem production_env_vars_keys:
  "(get_production_env_vars W s = (Inr env_vars, s') \<longrightarrow>
      (\<exists>a b c d e rest h.
          stdin s = a # b # c # d # e # rest
        \<and> map_of env_vars ''FLASK_ENV'' = Some ''production''
        \<and> map_of env_vars ''SECRET_KEY'' = Some (token_urlsafe W (trace s @ h) 32)
        \<and> map_of env_vars ''STRIPE_PUBLISHABLE_KEY'' = Some (strip a)
        \<and> map_of env_vars ''STRIPE_SECRET_KEY'' = Some (strip b)
        \<and> map_of env_vars ''STRIPE_WEBHOOK_SECRET'' = Some (strip c)
        \<and> map_of env_vars ''ALPHA_VANTAGE_API_KEY''
            = (if strip d = [] then None else Some (strip d))
        \<and> map_of env_vars ''IEX_API_KEY'' = (if strip e = [] then None else Some (strip e))
        \<and> distinct (map fst env_vars)))
 \<and> (5 \<le> length (stdin s) \<longrightarrow>
      (\<exists>env_vars s'. get_production_env_vars W s = (Inr env_vars, s')))"
proof (intro conjI impI)
  assume run: "get_production_env_vars W s = (Inr env_vars, s')"
  then obtain a b c d e rest where inp: "stdin s = a # b # c # d # e # rest"
    using get_production_env_vars_needs_five by blast
  let ?h = "[Print (nl # money_bag @ '' Setting up monetization (Stripe)...''),
             Print ''Get your Stripe keys from: https://dashboard.stripe.com/apikeys'',
             Ask ''Stripe Publishable Key (pk_live_...): '' (Some a),
             Ask ''Stripe Secret Key (sk_live_...): '' (Some b),
             Ask ''Stripe Webhook Secret (whsec_...): '' (Some c)]"
  from get_production_env_vars_run[OF inp, of W] run
  have ev: "env_vars =
      [(''FLASK_ENV'', ''production''),
       (''SECRET_KEY'', token_urlsafe W (trace s @ ?h) 32),
       (''STRIPE_PUBLISHABLE_KEY'', strip a),
       (''STRIPE_SECRET_KEY'', strip b),
       (''STRIPE_WEBHOOK_SECRET'', strip c)]
      @ (if strip d \<noteq> [] then [(''ALPHA_VANTAGE_API_KEY'', strip d)] else [])
      @ (if strip e \<noteq> [] then [(''IEX_API_KEY'', strip e)] else [])"
    by simp
  have "map_of env_vars ''FLASK_ENV'' = Some ''production''"
    and "map_of env_vars ''SECRET_KEY'' = Some (token_urlsafe W (trace s @ ?h) 32)"
    and "map_of env_vars ''STRIPE_PUBLISHABLE_KEY'' = Some (strip a)"
    and "map_of env_vars ''STRIPE_SECRET_KEY'' = Some (strip b)"
    and "map_of env_vars ''STRIPE_WEBHOOK_SECRET'' = Some (strip c)"
    and "map_of env_vars ''ALPHA_VANTAGE_API_KEY'' = (if strip d = [] then None else Some (strip d))"
    and "map_of env_vars ''IEX_API_KEY'' = (if strip e = [] then None else Some (strip e))"
    and "distinct (map fst env_vars)"
    unfolding ev by simp_all
  with inp
  show "\<exists>a b c d e rest h.
          stdin s = a # b # c # d # e # rest
        \<and> map_of env_vars ''FLASK_ENV'' = Some ''production''
        \<and> map_of env_vars ''SECRET_KEY'' = Some (token_urlsafe W (trace s @ h) 32)
        \<and> map_of env_vars ''STRIPE_PUBLISHABLE_KEY'' = Some (strip a)
        \<and> map_of env_vars ''STRIPE_SECRET_KEY'' = Some (strip b)
        \<and> map_of env_vars ''STRIPE_WEBHOOK_SECRET'' = Some (strip c)
        \<and> map_of env_vars ''ALPHA_VANTAGE_API_KEY''
            = (if strip d = [] then None else Some (strip d))
        \<and> map_of env_vars ''IEX_API_KEY'' = (if strip e = [] then None else Some (strip e))
        \<and> distinct (map fst env_vars)"
    by blast
next
  assume "5 \<le> length (stdin s)"
  then obtain a b c d e rest where "stdin s = a # b # c # d # e # rest"
    using five_lines by blast
  from get_production_env_vars_run[OF this, of W]
  show "\<exists>env_vars s'. get_production_env_vars W s = (Inr env_vars, s')" by blast
qed

theorem production_env_vars_keys_witness:
  "5 \<le> length (stdin placeholder_typed)
 \<and> (\<exists>env_vars s'. get_production_env_vars rejecting_world placeholder_typed = (Inr env_vars, s'))
 \<and> fst (get_production_env_vars rejecting_world placeholder_typed) =
     Inr [(''FLASK_ENV'', ''production''), (''SECRET_KEY'', ''Zm9vYmFy''),
          (''STRIPE_PUBLISHABLE_KEY'', ''your-key-here''), (''STRIPE_SECRET_KEY'', ''sk_live_1''),
          (''STRIPE_WEBHOOK_SECRET'', ''whsec_1''), (''ALPHA_VANTAGE_API_KEY'', ''av_1'')]"
proof -
  have five: "5 \<le> length (stdin placeholder_typed)" by (simp add: placeholder_typed_def fresh_def)
  have "fst (get_production_env_vars rejecting_world placeholder_typed) =
     Inr [(''FLASK_ENV'', ''production''), (''SECRET_KEY'', ''Zm9vYmFy''),
          (''STRIPE_PUBLISHABLE_KEY'', ''your-key-here''), (''STRIPE_SECRET_KEY'', ''sk_live_1''),
          (''STRIPE_WEBHOOK_SECRET'', ''whsec_1''), (''ALPHA_VANTAGE_API_KEY'', ''av_1'')]"
    by (simp add: get_production_env_vars_def exec Let_def dict_update_def
        placeholder_typed_def fresh_def rejecting_world_def text_ops)
  with five production_env_vars_keys[of rejecting_world placeholder_typed]
  show ?thesis by blast
qed




text \<open>
  C10: when the secret key entered in \<open>setup_stripe_products\<close> is blank after stripping
  whitespace, the routine prints that it skips the setup and returns at once. It raises
  nothing, and the billing provider is not called: no key is set, no product and no price
  is created.
\<close>

theorem blank_key_skips_stripe_setup:
  assumes "stdin s = l # rest" and "strip l = []"
  shows "setup_stripe_products W s =
           (Inr (), s\<lparr>stdin := rest, trace := trace s @
              [Print (nl # credit_card @ '' Setting up Stripe products...''),
               Ask ''Enter your Stripe Secret Key: '' (Some l),
               Print (warning_sign
                 @ ''  Skipping Stripe setup. You can do this later in Stripe Dashboard.'')]\<rparr>)
       \<and> stripe_log (new_events s (snd (setup_stripe_products W s))) = []"
  using assms by (simp add: setup_stripe_products_def exec Let_def new_events_def)

theorem blank_key_skips_stripe_setup_witness:
  "strip [CHR '' '', CHR 0x09] = []
 \<and> setup_stripe_products bare_world \<lparr>stdin = [[CHR '' '', CHR 0x09], ''n''], trace = []\<rparr> =
     (Inr (), \<lparr>stdin = [''n''], trace =
        [Print (nl # credit_card @ '' Setting up Stripe products...''),
         Ask ''Enter your Stripe Secret Key: '' (Some [CHR '' '', CHR 0x09]),
         Print (warning_sign
           @ ''  Skipping Stripe setup. You can do this later in Stripe Dashboard.'')]\<rparr>)"
proof -
  have blank: "strip [CHR '' '', CHR 0x09] = []" by (simp add: text_ops)
  from blank_key_skips_stripe_setup
    [of "\<lparr>stdin = [[CHR '' '', CHR 0x09], ''n''], trace = []\<rparr>" "[CHR '' '', CHR 0x09]"
        "[''n'']" bare_world, OF _ blank]
  show ?thesis using blank by simp
qed


end
